theory Spec2Isabelle
  imports Main "HOL-Library.Word"
begin

unbundle bit_operations_syntax

section \<open>Machine integers, errors and outcomes\<close>

type_synonym uint64 = "64 word"
type_synonym byte = "8 word"

text \<open>
  The errors the Go code builds with \<open>fmt.Errorf\<close>, one constructor per message, the
  formatted arguments in the order the call passes them. \<open>ErrExternal\<close> stands for an
  error that comes out of a collaborator (a reader, the encoder).
\<close>

datatype error =
    ErrNotCompressed
  | ErrSeedMissing
  | ErrBufferDegree int
  | ErrBufferRNSSize int int
  | ErrBufferBaseTwoSize "int list" "int list"
  | ErrBufferLevelQ int int
  | ErrBufferLevelP int int
  | ErrWriteSeedNil
  | ErrGaloisKeyNil uint64
  | ErrRelinearizationKeyNil
  | ErrExternal string

text \<open>
  A Go function that returns an \<open>error\<close> either panics (an index out of range, a nil
  dereference), returns a non-nil error, or returns normally.
\<close>

datatype 'a outcome = Panic | Err error | Ok 'a

section \<open>ring.Poly (src/ring/poly.go)\<close>

record Poly =
  Coeffs :: "uint64 list list"

definition NewPoly :: "nat \<Rightarrow> int \<Rightarrow> Poly" where
  "NewPoly N lvl = \<lparr>Coeffs = replicate (nat (lvl + 1)) (replicate N 0)\<rparr>"

definition Level :: "Poly \<Rightarrow> int" where
  "Level pol = int (length (Coeffs pol)) - 1"

section \<open>ringqp.Poly\<close>

text \<open>
  Modelled from the spec: the type \<open>ringqp.Poly\<close> is not among the sources. A ring
  element is the pair of a Q-part and a P-part; the P-part is absent (level -1) when no
  switching modulus is configured. The code reads the parts as \<open>Value.Q\<close> and
  \<open>Value.P\<close> and takes their \<open>Level()\<close>.
\<close>

record PolyQP =
  Q :: Poly
  P :: Poly

definition LevelQ :: "PolyQP \<Rightarrow> int" where
  "LevelQ p = Level (Q p)"

definition LevelP :: "PolyQP \<Rightarrow> int" where
  "LevelP p = Level (P p)"

definition NewPolyQP :: "nat \<Rightarrow> int \<Rightarrow> int \<Rightarrow> PolyQP" where
  "NewPolyQP N levelQ levelP = \<lparr>Q = NewPoly N levelQ, P = NewPoly N levelP\<rparr>"

section \<open>Parameters\<close>

text \<open>
  Modelled from the spec: \<open>rlwe.Parameters\<close> is not among the sources. The code asks it
  for the ring degree, the maximum levels and, per configured level and base-2
  decomposition, the number of base-2 digits of each RNS digit (one entry per RNS digit,
  so the length of the list is the number of RNS digits).
\<close>

record Parameters =
  ringN :: nat
  MaxLevelQ :: int
  MaxLevelP :: int
  DecompositionSizes :: "int \<Rightarrow> int \<Rightarrow> int \<Rightarrow> nat list"
  NthRootOf :: uint64

section \<open>VectorQP (rlwe, keys)\<close>

type_synonym VectorQP = "PolyQP list"

definition NewVectorQP :: "Parameters \<Rightarrow> nat \<Rightarrow> int \<Rightarrow> int \<Rightarrow> VectorQP" where
  "NewVectorQP params sz levelQ levelP = replicate sz (NewPolyQP (ringN params) levelQ levelP)"

section \<open>GadgetCiphertext\<close>

text \<open>
  Modelled from the spec: \<open>GadgetCiphertext\<close> and its methods are not among the sources.
  It owns a jagged table \<open>Value[i][j]\<close> of vectors of ring elements, one row per RNS
  digit, one column per base-2 digit of that row; a vector holds degree + 1 elements
  (degree 0: the masked secret only; degree 1: that and the public randomness).
  The accessors read the first cell, as the callers in the sources expect
  (\<open>evk.Value[i][j][0]\<close>); on an empty table Go panics on the index, here \<open>None\<close>.
\<close>

record GadgetCiphertext =
  BaseTwoDecomposition :: int
  Value :: "VectorQP list list"

definition NewGadgetCiphertext :: "Parameters \<Rightarrow> int \<Rightarrow> int \<Rightarrow> int \<Rightarrow> int \<Rightarrow> GadgetCiphertext" where
  "NewGadgetCiphertext params degree levelQ levelP b2d =
     \<lparr>BaseTwoDecomposition = b2d,
      Value = map (\<lambda>cols. replicate cols (NewVectorQP params (nat (degree + 1)) levelQ levelP))
                  (DecompositionSizes params levelQ levelP b2d)\<rparr>"

definition firstCell :: "GadgetCiphertext \<Rightarrow> VectorQP option" where
  "firstCell ct = (case Value ct of [] \<Rightarrow> None
                   | row # _ \<Rightarrow> (case row of [] \<Rightarrow> None | v # _ \<Rightarrow> Some v))"

definition firstPoly :: "GadgetCiphertext \<Rightarrow> PolyQP option" where
  "firstPoly ct = (case firstCell ct of None \<Rightarrow> None
                   | Some v \<Rightarrow> (case v of [] \<Rightarrow> None | p # _ \<Rightarrow> Some p))"

definition Degree :: "GadgetCiphertext \<Rightarrow> int option" where
  "Degree ct = map_option (\<lambda>v. int (length v) - 1) (firstCell ct)"

definition gctLevelQ :: "GadgetCiphertext \<Rightarrow> int option" where
  "gctLevelQ ct = map_option LevelQ (firstPoly ct)"

definition gctLevelP :: "GadgetCiphertext \<Rightarrow> int option" where
  "gctLevelP ct = map_option LevelP (firstPoly ct)"

definition BaseRNSDecompositionVectorSize :: "GadgetCiphertext \<Rightarrow> int" where
  "BaseRNSDecompositionVectorSize ct = int (length (Value ct))"

definition BaseTwoDecompositionVectorSize :: "GadgetCiphertext \<Rightarrow> int list" where
  "BaseTwoDecompositionVectorSize ct = map (\<lambda>row. int (length row)) (Value ct)"

section \<open>EvaluationKey, RelinearizationKey, GaloisKey\<close>

text \<open>
  \<open>Seed *[32]byte\<close>: a pointer, \<open>None\<close> when nil. The embedded struct is the field
  \<open>gct\<close>.
\<close>

record EvaluationKey =
  gct :: GadgetCiphertext
  Seed :: "byte list option"

definition newEvaluationKey :: "Parameters \<Rightarrow> int \<Rightarrow> int \<Rightarrow> int \<Rightarrow> bool \<Rightarrow> EvaluationKey" where
  "newEvaluationKey params levelQ levelP b2d compressed =
     (let degree = (if compressed then 0 else 1)
      in \<lparr>gct = NewGadgetCiphertext params degree levelQ levelP b2d, Seed = None\<rparr>)"

definition IsCompressed :: "EvaluationKey \<Rightarrow> bool option" where
  "IsCompressed evk = map_option (\<lambda>d. d = 0) (Degree (gct evk))"

type_synonym RelinearizationKey = EvaluationKey

definition newRelinearizationKey :: "Parameters \<Rightarrow> int \<Rightarrow> int \<Rightarrow> int \<Rightarrow> bool \<Rightarrow> RelinearizationKey" where
  "newRelinearizationKey params levelQ levelP b2d compressed =
     (let degree = (if compressed then 0 else 1)
      in \<lparr>gct = NewGadgetCiphertext params degree levelQ levelP b2d, Seed = None\<rparr>)"

record GaloisKey =
  GaloisElement :: uint64
  NthRoot :: uint64
  gk_evk :: EvaluationKey

definition newGaloisKey :: "Parameters \<Rightarrow> int \<Rightarrow> int \<Rightarrow> int \<Rightarrow> bool \<Rightarrow> GaloisKey" where
  "newGaloisKey params levelQ levelP b2d compressed =
     (let degree = (if compressed then 0 else 1)
      in \<lparr>GaloisElement = 0,
          NthRoot = NthRootOf params,
          gk_evk = \<lparr>gct = NewGadgetCiphertext params degree levelQ levelP b2d, Seed = None\<rparr>\<rparr>)"

section \<open>EvaluationKey.Expand\<close>

text \<open>
  Modelled from the spec: the keyed pseudo-random generator and the uniform sampler are
  external collaborators. \<open>smp seed levelQ levelP k buf\<close> is what the \<open>k\<close>-th
  \<open>Read\<close> on the stream keyed by \<open>seed\<close>, at the given levels, leaves in the
  polynomial \<open>buf\<close>; the same seed replays the same stream.
\<close>

type_synonym UniformSampler = "byte list \<Rightarrow> int \<Rightarrow> int \<Rightarrow> nat \<Rightarrow> PolyQP \<Rightarrow> PolyQP"

text \<open>
  The checks on a caller-supplied buffer, in the order of the source. The two arguments
  of each error are the ones the call to \<open>fmt.Errorf\<close> passes, in its order.
\<close>

definition checkBuffer :: "GadgetCiphertext \<Rightarrow> int \<Rightarrow> int list \<Rightarrow> int \<Rightarrow> int \<Rightarrow> unit outcome" where
  "checkBuffer buffer rnsSize baseTwoSize levelQ levelP =
     (case Degree buffer of
        None \<Rightarrow> Panic
      | Some have \<Rightarrow>
          if have \<noteq> 0 then Err (ErrBufferDegree have)
          else if BaseRNSDecompositionVectorSize buffer \<noteq> rnsSize
            then Err (ErrBufferRNSSize (BaseRNSDecompositionVectorSize buffer) rnsSize)
          else if BaseTwoDecompositionVectorSize buffer \<noteq> baseTwoSize
            then Err (ErrBufferBaseTwoSize (BaseTwoDecompositionVectorSize buffer) baseTwoSize)
          else (case gctLevelQ buffer of
                  None \<Rightarrow> Panic
                | Some haveQ \<Rightarrow>
                    if haveQ \<noteq> levelQ then Err (ErrBufferLevelQ levelQ haveQ)
                    else (case gctLevelP buffer of
                            None \<Rightarrow> Panic
                          | Some haveP \<Rightarrow>
                              if haveP \<noteq> levelP then Err (ErrBufferLevelP levelP haveP)
                              else Ok ())))"

text \<open>
  The inner loop over the columns \<open>j\<close> of one row: the sample is read into
  \<open>buffer.Value[i][j][0]\<close> and the cell of the key becomes the pair of its old first
  element and that polynomial. \<open>k\<close> counts the draws made so far. An index out of
  range is a panic (\<open>None\<close>).
\<close>

fun expandRow :: "(nat \<Rightarrow> PolyQP \<Rightarrow> PolyQP) \<Rightarrow> nat \<Rightarrow> VectorQP list \<Rightarrow> VectorQP list
    \<Rightarrow> (VectorQP list \<times> VectorQP list) option" where
  "expandRow rd k [] brow = Some ([], brow)"
| "expandRow rd k (ev # evs) [] = None"
| "expandRow rd k (ev # evs) (bv # bvs) =
     (case bv of
        [] \<Rightarrow> None
      | b0 # btl \<Rightarrow>
          (case ev of
             [] \<Rightarrow> None
           | e0 # etl \<Rightarrow>
               (case expandRow rd (Suc k) evs bvs of
                  None \<Rightarrow> None
                | Some (evs', bvs') \<Rightarrow> Some ([e0, rd k b0] # evs', (rd k b0 # btl) # bvs'))))"

text \<open>The outer loop over the rows \<open>i\<close>; an empty row of the key reads nothing.\<close>

fun expandRows :: "(nat \<Rightarrow> PolyQP \<Rightarrow> PolyQP) \<Rightarrow> nat \<Rightarrow> VectorQP list list \<Rightarrow> VectorQP list list
    \<Rightarrow> (VectorQP list list \<times> VectorQP list list) option" where
  "expandRows rd k [] bval = Some ([], bval)"
| "expandRows rd k (er # ers) [] =
     (case er of
        [] \<Rightarrow> (case expandRows rd k ers [] of
                 None \<Rightarrow> None
               | Some (ers', bval') \<Rightarrow> Some ([] # ers', bval'))
      | ev # evs \<Rightarrow> None)"
| "expandRows rd k (er # ers) (br # brs) =
     (case expandRow rd k er br of
        None \<Rightarrow> None
      | Some (er', br') \<Rightarrow>
          (case expandRows rd (k + length er) ers brs of
             None \<Rightarrow> None
           | Some (ers', brs') \<Rightarrow> Some (er' # ers', br' # brs')))"

text \<open>
  \<open>Expand\<close> returns an error or nil; its effect is on the table of the key (the
  receiver is a copy of the struct, the table is shared with the caller's key) and on the
  buffer. \<open>Ok\<close> carries the key and the buffer as the call leaves them.
\<close>

definition Expand :: "Parameters \<Rightarrow> UniformSampler \<Rightarrow> EvaluationKey \<Rightarrow> GadgetCiphertext option
    \<Rightarrow> (EvaluationKey \<times> GadgetCiphertext) outcome" where
  "Expand params smp evk buffer =
     (case IsCompressed evk of
        None \<Rightarrow> Panic
      | Some compressed \<Rightarrow>
          if \<not> compressed then Err ErrNotCompressed
          else (case Seed evk of
             None \<Rightarrow> Err ErrSeedMissing
           | Some seed \<Rightarrow>
              (case gctLevelQ (gct evk) of
                 None \<Rightarrow> Panic
               | Some levelQ \<Rightarrow>
                  (case gctLevelP (gct evk) of
                     None \<Rightarrow> Panic
                   | Some levelP \<Rightarrow>
                      (let rnsSize = BaseRNSDecompositionVectorSize (gct evk);
                           baseTwoSize = BaseTwoDecompositionVectorSize (gct evk);
                           checked = (case buffer of
                                Some b \<Rightarrow> (case checkBuffer b rnsSize baseTwoSize levelQ levelP of
                                             Panic \<Rightarrow> Panic
                                           | Err e \<Rightarrow> Err e
                                           | Ok u \<Rightarrow> Ok b)
                              | None \<Rightarrow> Ok (NewGadgetCiphertext params 0 levelQ levelP
                                               (BaseTwoDecomposition (gct evk))))
                       in (case checked of
                             Panic \<Rightarrow> Panic
                           | Err e \<Rightarrow> Err e
                           | Ok b \<Rightarrow>
                              (case expandRows (smp seed levelQ levelP) 0
                                      (Value (gct evk)) (Value b) of
                                 None \<Rightarrow> Panic
                               | Some (val', bval') \<Rightarrow>
                                   Ok (evk\<lparr>gct := (gct evk)\<lparr>Value := val'\<rparr>\<rparr>,
                                       b\<lparr>Value := bval'\<rparr>))))))))"

text \<open>
  \<open>CopyNew\<close> builds a new key from a deep copy of the embedded ciphertext and sets no
  other field. Modelled from the spec: \<open>GadgetCiphertext.CopyNew\<close> is not among the
  sources; a deep copy has the same value.
\<close>

definition gctCopyNew :: "GadgetCiphertext \<Rightarrow> GadgetCiphertext" where
  "gctCopyNew ct = \<lparr>BaseTwoDecomposition = BaseTwoDecomposition ct, Value = Value ct\<rparr>"

definition CopyNew :: "EvaluationKey \<Rightarrow> EvaluationKey" where
  "CopyNew evk = \<lparr>gct = gctCopyNew (gct evk), Seed = None\<rparr>"

section \<open>MemEvaluationKeySet\<close>

text \<open>
  \<open>RelinearizationKey *RelinearizationKey\<close> is a pointer; \<open>GaloisKeys\<close> is a Go map
  from Galois element to \<open>*GaloisKey\<close>, itself possibly nil. A lookup in a nil map
  finds nothing.
\<close>

record MemEvaluationKeySet =
  RelinearizationKey :: "RelinearizationKey option"
  GaloisKeys :: "(uint64 \<rightharpoonup> GaloisKey option) option"

fun insertGaloisKeys :: "(uint64 \<rightharpoonup> GaloisKey option) \<Rightarrow> GaloisKey option list
    \<Rightarrow> (uint64 \<rightharpoonup> GaloisKey option) option" where
  "insertGaloisKeys m [] = Some m"
| "insertGaloisKeys m (None # ks) = None"
| "insertGaloisKeys m (Some k # ks) = insertGaloisKeys (m(GaloisElement k \<mapsto> Some k)) ks"

definition NewMemEvaluationKeySet :: "RelinearizationKey option \<Rightarrow> GaloisKey option list
    \<Rightarrow> MemEvaluationKeySet option" where
  "NewMemEvaluationKeySet relinKey galoisKeys =
     (case insertGaloisKeys Map.empty galoisKeys of
        None \<Rightarrow> None
      | Some m \<Rightarrow> Some \<lparr>RelinearizationKey = relinKey, GaloisKeys = Some m\<rparr>)"

definition GetGaloisKey :: "MemEvaluationKeySet \<Rightarrow> uint64 \<Rightarrow> GaloisKey option \<times> error option" where
  "GetGaloisKey eks galEl =
     (case (case GaloisKeys eks of None \<Rightarrow> None | Some m \<Rightarrow> m galEl) of
        None \<Rightarrow> (None, Some (ErrGaloisKeyNil galEl))
      | Some gk \<Rightarrow> (gk, None))"

definition GetRelinearizationKey :: "MemEvaluationKeySet \<Rightarrow> RelinearizationKey option \<times> error option" where
  "GetRelinearizationKey eks =
     (case RelinearizationKey eks of
        Some rk \<Rightarrow> (Some rk, None)
      | None \<Rightarrow> (None, Some ErrRelinearizationKeyNil))"

text \<open>
  Shape conditions on the tables: every cell holds at least one polynomial, and a
  caller-supplied buffer agrees with the key on each field that \<open>Expand\<close> checks.
\<close>

definition cellsNonempty :: "VectorQP list list \<Rightarrow> bool" where
  "cellsNonempty val = list_all (list_all (\<lambda>v. v \<noteq> [])) val"

definition bufferMatches :: "GadgetCiphertext \<Rightarrow> EvaluationKey \<Rightarrow> bool" where
  "bufferMatches buf evk \<longleftrightarrow>
     Degree buf = Some 0
     \<and> BaseRNSDecompositionVectorSize buf = BaseRNSDecompositionVectorSize (gct evk)
     \<and> BaseTwoDecompositionVectorSize buf = BaseTwoDecompositionVectorSize (gct evk)
     \<and> gctLevelQ buf = gctLevelQ (gct evk)
     \<and> gctLevelP buf = gctLevelP (gct evk)"

section \<open>PolyVector and PolyMatrix (ringqp)\<close>

text \<open>
  Modelled from the spec: \<open>PolyVector\<close> is not among the sources. It is a vector of
  ring elements whose level accessors read its first polynomial, as the comments on
  \<open>PolyMatrix\<close> say of the matrix; on an empty vector the index panics (\<open>None\<close>).
\<close>

type_synonym PolyVector = "PolyQP list"

definition NewPolyVector :: "nat \<Rightarrow> int \<Rightarrow> int \<Rightarrow> nat \<Rightarrow> PolyVector" where
  "NewPolyVector N levelQ levelP cols = replicate cols (NewPolyQP N levelQ levelP)"

definition pvLevelQ :: "PolyVector \<Rightarrow> int option" where
  "pvLevelQ pv = (case pv of [] \<Rightarrow> None | p # _ \<Rightarrow> Some (LevelQ p))"

definition pvLevelP :: "PolyVector \<Rightarrow> int option" where
  "pvLevelP pv = (case pv of [] \<Rightarrow> None | p # _ \<Rightarrow> Some (LevelP p))"

text \<open>
  \<open>type PolyMatrix []*PolyVector\<close>: a slice of pointers, \<open>None\<close> for nil. The
  accessors index row 0 and call the method of the vector; an empty matrix or a nil row
  panics (\<open>None\<close>).
\<close>

type_synonym PolyMatrix = "PolyVector option list"

definition NewPolyMatrix :: "nat \<Rightarrow> int \<Rightarrow> int \<Rightarrow> nat \<Rightarrow> nat \<Rightarrow> PolyMatrix" where
  "NewPolyMatrix N levelQ levelP rows cols =
     replicate rows (Some (NewPolyVector N levelQ levelP cols))"

definition pmLevelQ :: "PolyMatrix \<Rightarrow> int option" where
  "pmLevelQ pm = (case pm of [] \<Rightarrow> None
                  | row # _ \<Rightarrow> (case row of None \<Rightarrow> None | Some pv \<Rightarrow> pvLevelP pv))"

definition pmLevelP :: "PolyMatrix \<Rightarrow> int option" where
  "pmLevelP pm = (case pm of [] \<Rightarrow> None
                  | row # _ \<Rightarrow> (case row of None \<Rightarrow> None | Some pv \<Rightarrow> pvLevelP pv))"

section \<open>SimpleBootstrapper (ckks)\<close>

text \<open>
  The bootstrapper embeds an encoder, a decryptor and an encryptor, which are not among
  the sources: they are fields of the record. \<open>Decode\<close> fills the slice it is given
  and may fail, \<open>Encode\<close> fills the plaintext and may fail; \<open>plaintextFor\<close> is the
  new plaintext at the maximum level with the meta data of the ciphertext;
  \<open>EncryptInto\<close> resizes the ciphertext and encrypts into it; \<open>LogSlotsOf\<close> reads
  \<open>ct.LogSlots\<close>.
\<close>

record ('ct, 'pt, 'v) SimpleBootstrapper =
  DecryptNew :: "'ct \<Rightarrow> 'pt"
  Decode :: "'pt \<Rightarrow> 'v list \<Rightarrow> error option \<times> 'v list"
  Encode :: "'v list \<Rightarrow> 'pt \<Rightarrow> error option \<times> 'pt"
  plaintextFor :: "'ct \<Rightarrow> 'pt"
  EncryptInto :: "'pt \<Rightarrow> 'ct \<Rightarrow> 'ct"
  LogSlotsOf :: "'ct \<Rightarrow> nat"
  Values :: "'v list"
  Counter :: int

text \<open>
  \<open>Bootstrap\<close> returns the pair (ciphertext pointer, error) and leaves the bootstrapper
  changed (the decoded values, the counter). A nil ciphertext or a slice bound beyond
  \<open>d.Values\<close> panics (\<open>None\<close>).
\<close>

definition Bootstrap :: "('ct, 'pt, 'v) SimpleBootstrapper \<Rightarrow> 'ct option
    \<Rightarrow> (('ct option \<times> error option) \<times> ('ct, 'pt, 'v) SimpleBootstrapper) option" where
  "Bootstrap d ctp =
     (case ctp of
        None \<Rightarrow> None
      | Some ct \<Rightarrow>
          (let n = 2 ^ LogSlotsOf d ct in
           if length (Values d) < n then None
           else (case Decode d (DecryptNew d ct) (take n (Values d)) of
                   (Some err, values) \<Rightarrow>
                     Some ((None, Some err), d\<lparr>Values := values @ drop n (Values d)\<rparr>)
                 | (None, values) \<Rightarrow>
                     (case Encode d values (plaintextFor d ct) of
                        (Some err, pt) \<Rightarrow>
                          Some ((None, Some err), d\<lparr>Values := values @ drop n (Values d)\<rparr>)
                      | (None, pt) \<Rightarrow>
                          Some ((Some (EncryptInto d pt ct), None),
                                d\<lparr>Values := values @ drop n (Values d),
                                  Counter := Counter d + 1\<rparr>)))))"

text \<open>
  The loop of \<open>BootstrapMany\<close>: \<open>cts[i], _ = d.Bootstrap(cts[i])\<close> stores the returned
  pointer and discards the returned error.
\<close>

fun bootstrapEach :: "('ct, 'pt, 'v) SimpleBootstrapper \<Rightarrow> 'ct option list
    \<Rightarrow> ('ct option list \<times> ('ct, 'pt, 'v) SimpleBootstrapper) option" where
  "bootstrapEach d [] = Some ([], d)"
| "bootstrapEach d (ct # cts) =
     (case Bootstrap d ct of
        None \<Rightarrow> None
      | Some ((ct', err), d') \<Rightarrow>
          (case bootstrapEach d' cts of
             None \<Rightarrow> None
           | Some (cts', d'') \<Rightarrow> Some (ct' # cts', d'')))"

definition BootstrapMany :: "('ct, 'pt, 'v) SimpleBootstrapper \<Rightarrow> 'ct option list
    \<Rightarrow> (('ct option list \<times> error option) \<times> ('ct, 'pt, 'v) SimpleBootstrapper) option" where
  "BootstrapMany d cts =
     (case bootstrapEach d cts of
        None \<Rightarrow> None
      | Some (cts', d') \<Rightarrow> Some ((cts', None), d'))"

section \<open>Ring addition\<close>

text \<open>
  Modelled from the spec: the ring-arithmetic engine is not among the sources. Its
  \<open>Add(p1, p2, p3)\<close> is the coordinatewise modular addition \<open>p3 = p1 + p2\<close>, one
  modulus per row; rows of \<open>p3\<close> beyond the rows that are added keep their content.
  A modulus is a prime, never 0.
\<close>

definition addMod :: "uint64 \<Rightarrow> uint64 \<Rightarrow> uint64 \<Rightarrow> uint64" where
  "addMod q x y = of_nat ((unat x + unat y) mod unat q)"

definition rowAdd :: "uint64 \<Rightarrow> uint64 list \<Rightarrow> uint64 list \<Rightarrow> uint64 list" where
  "rowAdd q r1 r2 = map (\<lambda>(x, y). addMod q x y) (zip r1 r2)"

definition rowsAdd :: "uint64 list \<Rightarrow> uint64 list list \<Rightarrow> uint64 list list \<Rightarrow> uint64 list list" where
  "rowsAdd moduli c1 c2 = map (\<lambda>(q, r1, r2). rowAdd q r1 r2) (zip moduli (zip c1 c2))"

definition ringAdd :: "uint64 list \<Rightarrow> Poly \<Rightarrow> Poly \<Rightarrow> Poly \<Rightarrow> Poly" where
  "ringAdd moduli p1 p2 p3 =
     (let sums = rowsAdd moduli (Coeffs p1) (Coeffs p2)
      in \<lparr>Coeffs = sums @ drop (length sums) (Coeffs p3)\<rparr>)"

text \<open>
  The ring of pairs: the moduli of Q and, when a switching modulus is configured, the
  moduli of P (\<open>RingP\<close> is nil otherwise and the P-part is left alone).
\<close>

record RingQP =
  RingQ :: "uint64 list"
  RingP :: "uint64 list option"


section \<open>CKGProtocol (drlwe)\<close>

text \<open>
  \<open>SecretKey\<close>, \<open>CKGShare\<close> and \<open>CKGCRP\<close> are structs with the one field
  \<open>Value\<close>; the field is named per struct here. The protocol holds the parameters (of
  which the code uses the ring and the maximum level of P) and the Gaussian sampler, whose
  state has the type \<open>'g\<close>.
\<close>

record SecretKey =
  skValue :: PolyQP

record CKGShare =
  shareValue :: PolyQP

record CKGCRP =
  crpValue :: PolyQP

record 'g CKGProtocol =
  ckgRingQP :: RingQP
  ckgMaxLevelP :: int
  gaussianSamplerQ :: 'g

text \<open>
  The operations of the ring engine and of the sampler that \<open>GenShare\<close> calls, which
  are not among the sources, as a record of functions: \<open>gaussianRead\<close> draws an error
  polynomial into the polynomial it is given and advances the sampler; the others take
  the ring first and, last, the content of the polynomial they write to.
\<close>

record 'g RingEngine =
  gaussianRead :: "'g \<Rightarrow> Poly \<Rightarrow> Poly \<times> 'g"
  ExtendBasisSmallNormAndCenter :: "RingQP \<Rightarrow> Poly \<Rightarrow> int \<Rightarrow> Poly \<Rightarrow> Poly"
  NTT :: "RingQP \<Rightarrow> PolyQP \<Rightarrow> PolyQP"
  MForm :: "RingQP \<Rightarrow> PolyQP \<Rightarrow> PolyQP"
  MulCoeffsMontgomery :: "RingQP \<Rightarrow> PolyQP \<Rightarrow> PolyQP \<Rightarrow> PolyQP"
  Sub :: "RingQP \<Rightarrow> PolyQP \<Rightarrow> PolyQP \<Rightarrow> PolyQP"

text \<open>
  Modelled from the spec: \<open>MulCoeffsMontgomeryThenSub(p1, p2, p3)\<close> is the
  Montgomery-domain multiply-then-subtract, \<open>p3 = p3 - p1 * p2\<close>, in terms of the
  engine's Montgomery product and subtraction.
\<close>

definition MulCoeffsMontgomeryThenSub :: "'g RingEngine \<Rightarrow> RingQP \<Rightarrow> PolyQP \<Rightarrow> PolyQP \<Rightarrow> PolyQP \<Rightarrow> PolyQP" where
  "MulCoeffsMontgomeryThenSub eng r p1 p2 p3 = Sub eng r p3 (MulCoeffsMontgomery eng r p1 p2)"

text \<open>
  \<open>GenShare\<close> writes the share into \<open>shareOut\<close> and advances the sampler of the
  protocol: the result is the share and the protocol after the call.
\<close>

definition GenShare :: "'g RingEngine \<Rightarrow> 'g CKGProtocol \<Rightarrow> SecretKey \<Rightarrow> CKGCRP \<Rightarrow> CKGShare
    \<Rightarrow> CKGShare \<times> 'g CKGProtocol" where
  "GenShare eng ckg sk crp shareOut =
     (let ringQP = ckgRingQP ckg;
          (e, g) = gaussianRead eng (gaussianSamplerQ ckg) (Q (shareValue shareOut));
          v1 = (shareValue shareOut)\<lparr>Q := e\<rparr>;
          v2 = (case RingP ringQP of
                  None \<Rightarrow> v1
                | Some moduliP \<Rightarrow>
                    v1\<lparr>P := ExtendBasisSmallNormAndCenter eng ringQP (Q v1) (ckgMaxLevelP ckg) (P v1)\<rparr>);
          v3 = NTT eng ringQP v2;
          v4 = MForm eng ringQP v3;
          v5 = MulCoeffsMontgomeryThenSub eng ringQP (skValue sk) (crpValue crp) v4
      in (shareOut\<lparr>shareValue := v5\<rparr>, ckg\<lparr>gaussianSamplerQ := g\<rparr>))"


section \<open>PermuteProtocol (src/dbfv/public_permute.go)\<close>

text \<open>
  In this package a polynomial is handled through a pointer \<open>*ring.Poly\<close> and the
  protocol writes into its own scratch polynomials, so the polynomials live in a store:
  an address is a pointer, a share and a ciphertext hold addresses.
\<close>

type_synonym addr = nat

type_synonym store = "addr \<Rightarrow> Poly"

record RefreshShare =
  RefreshShareDecrypt :: addr
  RefreshShareRecrypt :: addr

type_synonym Ciphertext = "addr list"

text \<open>
  The protocol: the moduli of \<open>contextQ\<close>, the index table, the scratch polynomial
  \<open>tmp1\<close> and, as functions, the collaborators that are not among the sources (the
  scaler, the transform of the plaintext ring, \<open>lift\<close>, the basis extender). Each takes
  the content of its input and of the polynomial it writes to, and gives the new content
  of the latter.
\<close>

record PermuteProtocol =
  contextQ :: "uint64 list"
  indexMatrix :: "uint64 list"
  tmp1 :: addr
  Scale :: "Poly \<Rightarrow> Poly \<Rightarrow> Poly"
  contextT_NTT :: "Poly \<Rightarrow> Poly \<Rightarrow> Poly"
  contextT_InvNTT :: "Poly \<Rightarrow> Poly \<Rightarrow> Poly"
  lift :: "Poly \<Rightarrow> Poly \<Rightarrow> Poly"
  ModDownPQ :: "uint64 \<Rightarrow> Poly \<Rightarrow> Poly \<Rightarrow> Poly"


text \<open>An empty ciphertext has no \<open>Value()[0]\<close>: the index panics (\<open>None\<close>).\<close>

definition Decrypt :: "PermuteProtocol \<Rightarrow> store \<Rightarrow> Ciphertext \<Rightarrow> addr \<Rightarrow> addr \<Rightarrow> store option" where
  "Decrypt pp h ciphertext shareDecrypt sharePlaintext =
     (case ciphertext of
        [] \<Rightarrow> None
      | c0 # _ \<Rightarrow>
          Some (h(sharePlaintext :=
                    ringAdd (contextQ pp) (h c0) (h shareDecrypt) (h sharePlaintext))))"

text \<open>
  One round of the loop of \<open>permuteWithIndex\<close>:
  \<open>polOut.Coeffs[0][indexMatrix[j]] = polIn.Coeffs[0][indexMatrix[index[j]]]\<close>.
  The two polynomials are read from the store at each round, so a write through
  \<open>polOut\<close> is seen by a later read through \<open>polIn\<close> when the two are the same
  pointer.
\<close>

definition permuteStep :: "PermuteProtocol \<Rightarrow> addr \<Rightarrow> uint64 list \<Rightarrow> addr \<Rightarrow> nat \<Rightarrow> store \<Rightarrow> store option" where
  "permuteStep pp polIn index polOut j h =
     (if j < length (indexMatrix pp) \<and> j < length index
         \<and> unat (index ! j) < length (indexMatrix pp)
      then (case Coeffs (h polIn) of
              [] \<Rightarrow> None
            | rowIn # _ \<Rightarrow>
                (case Coeffs (h polOut) of
                   [] \<Rightarrow> None
                 | rowOut # rowsOut \<Rightarrow>
                     (let src = unat (indexMatrix pp ! unat (index ! j));
                          dst = unat (indexMatrix pp ! j)
                      in if src < length rowIn \<and> dst < length rowOut
                         then Some (h(polOut := \<lparr>Coeffs = rowOut[dst := rowIn ! src] # rowsOut\<rparr>))
                         else None)))
      else None)"

fun permuteSteps :: "PermuteProtocol \<Rightarrow> addr \<Rightarrow> uint64 list \<Rightarrow> addr \<Rightarrow> nat list \<Rightarrow> store \<Rightarrow> store option" where
  "permuteSteps pp polIn index polOut [] h = Some h"
| "permuteSteps pp polIn index polOut (j # js) h =
     (case permuteStep pp polIn index polOut j h of
        None \<Rightarrow> None
      | Some h' \<Rightarrow> permuteSteps pp polIn index polOut js h')"

definition permuteWithIndex :: "PermuteProtocol \<Rightarrow> store \<Rightarrow> addr \<Rightarrow> uint64 list \<Rightarrow> addr \<Rightarrow> store option" where
  "permuteWithIndex pp h polIn index polOut =
     (case Coeffs (h polIn) of
        [] \<Rightarrow> None
      | rowIn # _ \<Rightarrow> permuteSteps pp polIn index polOut [0 ..< length rowIn] h)"

definition Permute :: "PermuteProtocol \<Rightarrow> store \<Rightarrow> addr \<Rightarrow> uint64 list \<Rightarrow> addr \<Rightarrow> store option" where
  "Permute pp h sharePlaintext permutation sharePlaintextOut =
     (let h1 = h(sharePlaintextOut := Scale pp (h sharePlaintext) (h sharePlaintextOut));
          h2 = h1(sharePlaintextOut :=
                    contextT_NTT pp (h1 sharePlaintextOut) (h1 sharePlaintextOut))
      in (case permuteWithIndex pp h2 sharePlaintextOut permutation (tmp1 pp) of
            None \<Rightarrow> None
          | Some h3 \<Rightarrow>
              (let h4 = h3(sharePlaintextOut :=
                             contextT_InvNTT pp (h3 (tmp1 pp)) (h3 sharePlaintextOut))
               in Some (h4(sharePlaintextOut :=
                             lift pp (h4 sharePlaintextOut) (h4 sharePlaintextOut))))))"

text \<open>
  \<open>uint64(len(ciphertextOut.Value()[1].Coeffs)-1)\<close> is the level handed to the basis
  extender.
\<close>

definition Recrypt :: "PermuteProtocol \<Rightarrow> store \<Rightarrow> addr \<Rightarrow> addr \<Rightarrow> addr \<Rightarrow> Ciphertext \<Rightarrow> store option" where
  "Recrypt pp h sharePlaintext crs shareRecrypt ciphertextOut =
     (case ciphertextOut of
        [] \<Rightarrow> None
      | c0 # rest \<Rightarrow>
          (let h1 = h(c0 := ringAdd (contextQ pp) (h sharePlaintext) (h shareRecrypt) (h c0))
           in (case rest of
                 [] \<Rightarrow> None
               | c1 # _ \<Rightarrow>
                   Some (h1(c1 := ModDownPQ pp (of_int (int (length (Coeffs (h1 c1))) - 1))
                                    (h1 crs) (h1 c1))))))"

definition Finalize :: "PermuteProtocol \<Rightarrow> store \<Rightarrow> Ciphertext \<Rightarrow> uint64 list \<Rightarrow> addr \<Rightarrow> RefreshShare
    \<Rightarrow> Ciphertext \<Rightarrow> store option" where
  "Finalize pp h ciphertext permutation crs share ciphertextOut =
     (case Decrypt pp h ciphertext (RefreshShareDecrypt share) (tmp1 pp) of
        None \<Rightarrow> None
      | Some h1 \<Rightarrow>
          (case Permute pp h1 (tmp1 pp) permutation (tmp1 pp) of
             None \<Rightarrow> None
           | Some h2 \<Rightarrow>
               Recrypt pp h2 (tmp1 pp) crs (RefreshShareRecrypt share) ciphertextOut))"

text \<open>
  The sequence of the three calls as a caller makes them, with a polynomial \<open>p\<close> of the
  caller's for the plaintext: \<open>Decrypt(ciphertext, share.RefreshShareDecrypt, p)\<close>, then
  \<open>Permute(p, permutation, p)\<close>, then
  \<open>Recrypt(p, crs, share.RefreshShareRecrypt, ciphertextOut)\<close>.
\<close>

definition DecryptPermuteRecrypt :: "PermuteProtocol \<Rightarrow> store \<Rightarrow> Ciphertext \<Rightarrow> uint64 list \<Rightarrow> addr
    \<Rightarrow> RefreshShare \<Rightarrow> addr \<Rightarrow> Ciphertext \<Rightarrow> store option" where
  "DecryptPermuteRecrypt pp h ciphertext permutation crs share p ciphertextOut =
     (case Decrypt pp h ciphertext (RefreshShareDecrypt share) p of
        None \<Rightarrow> None
      | Some h1 \<Rightarrow>
          (case Permute pp h1 p permutation p of
             None \<Rightarrow> None
           | Some h2 \<Rightarrow>
               Recrypt pp h2 p crs (RefreshShareRecrypt share) ciphertextOut))"



text \<open>
  The index table that \<open>NewPermuteProtocol\<close> builds for the ring degree \<open>N\<close> (a power
  of two). \<open>bits.Len64\<close>, \<open>utils.BitReverse64\<close> (the reversal of the low \<open>bitLen\<close>
  bits) and the constant \<open>bfv.GaloisGen\<close> are not among the sources: the first two are
  written out, the generator is a parameter.
\<close>

fun Len64 :: "nat \<Rightarrow> nat" where
  "Len64 n = (if n = 0 then 0 else Suc (Len64 (n div 2)))"

fun reverseBits :: "nat \<Rightarrow> nat \<Rightarrow> nat \<Rightarrow> nat" where
  "reverseBits 0 x acc = acc"
| "reverseBits (Suc n) x acc = reverseBits n (x div 2) (2 * acc + x mod 2)"

definition BitReverse64 :: "uint64 \<Rightarrow> nat \<Rightarrow> uint64" where
  "BitReverse64 index bitLen = of_nat (reverseBits bitLen (unat index) 0)"

fun indexMatrixLoop :: "nat \<Rightarrow> uint64 \<Rightarrow> uint64 \<Rightarrow> uint64 \<Rightarrow> nat list \<Rightarrow> uint64 \<Rightarrow> uint64 list
    \<Rightarrow> uint64 list" where
  "indexMatrixLoop logN rowSize m gen [] pos im = im"
| "indexMatrixLoop logN rowSize m gen (i # is) pos im =
     (let index1 = drop_bit 1 (pos - 1);
          index2 = drop_bit 1 (m - pos - 1);
          im1 = im[i := BitReverse64 index1 logN];
          im2 = im1[unat (of_nat i OR rowSize) := BitReverse64 index2 logN]
      in indexMatrixLoop logN rowSize m gen is ((pos * gen) AND (m - 1)) im2)"

definition newIndexMatrix :: "nat \<Rightarrow> uint64 \<Rightarrow> uint64 list" where
  "newIndexMatrix N gen =
     (let logN = Len64 N - 1;
          rowSize = drop_bit 1 (of_nat N :: uint64);
          m = push_bit 1 (of_nat N :: uint64)
      in indexMatrixLoop logN rowSize m gen [0 ..< unat rowSize] 1 (replicate N 0))"

section \<open>Binary encoding of evaluation keys\<close>

text \<open>
  Modelled from the spec: the encoders of the ring elements, of the vectors and of
  \<open>GadgetCiphertext\<close> are not among the sources. Numbers are 8 bytes, little-endian; a
  sequence is an 8-byte length prefix followed by its elements in order, recursively; a
  ring element is its Q-part followed by its P-part; the payload of a gadget ciphertext is
  its base-2 decomposition followed by its table.
\<close>

definition u64le :: "uint64 \<Rightarrow> byte list" where
  "u64le x = map (\<lambda>i. ucast (drop_bit (8 * i) x)) [0 ..< 8]"

definition encVec :: "('a \<Rightarrow> byte list) \<Rightarrow> 'a list \<Rightarrow> byte list" where
  "encVec enc xs = u64le (of_nat (length xs)) @ concat (map enc xs)"

definition encPoly :: "Poly \<Rightarrow> byte list" where
  "encPoly p = encVec (encVec u64le) (Coeffs p)"

definition encPolyQP :: "PolyQP \<Rightarrow> byte list" where
  "encPolyQP p = encPoly (Q p) @ encPoly (P p)"

definition gctEncode :: "GadgetCiphertext \<Rightarrow> byte list" where
  "gctEncode ct =
     u64le (of_int (BaseTwoDecomposition ct)) @ encVec (encVec (encVec encPolyQP)) (Value ct)"

text \<open>The sizes, computed from the shape without encoding.\<close>

definition sizeVec :: "('a \<Rightarrow> int) \<Rightarrow> 'a list \<Rightarrow> int" where
  "sizeVec sz xs = 8 + sum_list (map sz xs)"

definition sizePoly :: "Poly \<Rightarrow> int" where
  "sizePoly p = sizeVec (sizeVec (\<lambda>c. 8)) (Coeffs p)"

definition sizePolyQP :: "PolyQP \<Rightarrow> int" where
  "sizePolyQP p = sizePoly (Q p) + sizePoly (P p)"

definition gctBinarySize :: "GadgetCiphertext \<Rightarrow> int" where
  "gctBinarySize ct = 8 + sizeVec (sizeVec (sizeVec sizePolyQP)) (Value ct)"

text \<open>
  Modelled from the spec: a \<open>buffer.Writer\<close> is the bytes written so far and the number
  of bytes the sink still takes; a write beyond that is short and returns an error.
  \<open>Flush\<close> succeeds. A \<open>buffer.Reader\<close> is the bytes that remain.
\<close>

record Writer =
  written :: "byte list"
  room :: nat

definition writeBytes :: "Writer \<Rightarrow> byte list \<Rightarrow> int \<times> error option \<times> Writer" where
  "writeBytes w bs =
     (if length bs \<le> room w
      then (int (length bs), None, \<lparr>written = written w @ bs, room = room w - length bs\<rparr>)
      else (int (room w), Some (ErrExternal ''short write''),
            \<lparr>written = written w @ take (room w) bs, room = 0\<rparr>))"

definition gctWriteTo :: "GadgetCiphertext \<Rightarrow> Writer \<Rightarrow> int \<times> error option \<times> Writer" where
  "gctWriteTo ct w = writeBytes w (gctEncode ct)"

text \<open>\<open>len(*evk.Seed)\<close> is the length of the array behind the pointer.\<close>

definition BinarySize :: "EvaluationKey \<Rightarrow> int" where
  "BinarySize evk =
     (case Seed evk of
        Some seed \<Rightarrow> gctBinarySize (gct evk) + int (length seed)
      | None \<Rightarrow> gctBinarySize (gct evk))"

text \<open>
  \<open>WriteTo\<close> returns the count \<open>n\<close>, the error and leaves the writer changed;
  \<open>None\<close> is the panic of \<open>IsCompressed\<close> on an empty table. The source returns
  \<open>n + inc\<close> on each error path, also after \<open>n += inc\<close>.
\<close>

definition WriteTo :: "EvaluationKey \<Rightarrow> Writer \<Rightarrow> (int \<times> error option \<times> Writer) option" where
  "WriteTo evk w =
     (case gctWriteTo (gct evk) w of
        (inc, Some err, w1) \<Rightarrow> Some (0 + inc, Some err, w1)
      | (inc, None, w1) \<Rightarrow>
          (let n = 0 + inc in
           case IsCompressed evk of
             None \<Rightarrow> None
           | Some compressed \<Rightarrow>
               if compressed
               then (case Seed evk of
                       None \<Rightarrow> Some (n + inc, Some ErrWriteSeedNil, w1)
                     | Some seed \<Rightarrow>
                         (case writeBytes w1 seed of
                            (inc2, Some err, w2) \<Rightarrow> Some (n + inc2, Some err, w2)
                          | (inc2, None, w2) \<Rightarrow> Some (n + inc2, None, w2)))
               else Some (n, None, w1)))"

text \<open>The decoders, for the same layout; a truncated input is an error of the reader.\<close>

definition fromLE :: "byte list \<Rightarrow> uint64" where
  "fromLE bs = foldr (\<lambda>b acc. ucast b OR push_bit 8 acc) bs 0"

definition decU64 :: "byte list \<Rightarrow> (uint64 \<times> byte list) option" where
  "decU64 bs = (if length bs < 8 then None else Some (fromLE (take 8 bs), drop 8 bs))"

fun decN :: "(byte list \<Rightarrow> ('a \<times> byte list) option) \<Rightarrow> nat \<Rightarrow> byte list
    \<Rightarrow> ('a list \<times> byte list) option" where
  "decN dec 0 bs = Some ([], bs)"
| "decN dec (Suc n) bs =
     (case dec bs of
        None \<Rightarrow> None
      | Some (x, r) \<Rightarrow>
          (case decN dec n r of
             None \<Rightarrow> None
           | Some (xs, r') \<Rightarrow> Some (x # xs, r')))"

definition decVec :: "(byte list \<Rightarrow> ('a \<times> byte list) option) \<Rightarrow> byte list
    \<Rightarrow> ('a list \<times> byte list) option" where
  "decVec dec bs =
     (case decU64 bs of
        None \<Rightarrow> None
      | Some (n, r) \<Rightarrow> decN dec (unat n) r)"

definition decPoly :: "byte list \<Rightarrow> (Poly \<times> byte list) option" where
  "decPoly bs =
     (case decVec (decVec decU64) bs of
        None \<Rightarrow> None
      | Some (c, r) \<Rightarrow> Some (\<lparr>Coeffs = c\<rparr>, r))"

definition decPolyQP :: "byte list \<Rightarrow> (PolyQP \<times> byte list) option" where
  "decPolyQP bs =
     (case decPoly bs of
        None \<Rightarrow> None
      | Some (q, r) \<Rightarrow>
          (case decPoly r of
             None \<Rightarrow> None
           | Some (p, r') \<Rightarrow> Some (\<lparr>Q = q, P = p\<rparr>, r')))"

definition gctDecode :: "byte list \<Rightarrow> (GadgetCiphertext \<times> byte list) option" where
  "gctDecode bs =
     (case decU64 bs of
        None \<Rightarrow> None
      | Some (b2d, r) \<Rightarrow>
          (case decVec (decVec (decVec decPolyQP)) r of
             None \<Rightarrow> None
           | Some (v, r') \<Rightarrow> Some (\<lparr>BaseTwoDecomposition = sint b2d, Value = v\<rparr>, r')))"

text \<open>
  \<open>GadgetCiphertext.ReadFrom\<close> decodes into the receiver and returns the bytes read;
  on a truncated input the receiver is left as it was here. \<open>buffer.Read\<close> of the seed
  takes 32 bytes or fails.
\<close>

definition gctReadFrom :: "GadgetCiphertext \<Rightarrow> byte list
    \<Rightarrow> int \<times> error option \<times> GadgetCiphertext \<times> byte list" where
  "gctReadFrom ct r =
     (case gctDecode r of
        None \<Rightarrow> (int (length r), Some (ErrExternal ''unexpected EOF''), ct, [])
      | Some (ct', r') \<Rightarrow> (int (length r) - int (length r'), None, ct', r'))"

definition ReadFrom :: "EvaluationKey \<Rightarrow> byte list
    \<Rightarrow> (int \<times> error option \<times> EvaluationKey \<times> byte list) option" where
  "ReadFrom evk r =
     (case gctReadFrom (gct evk) r of
        (inc, Some err, ct, r1) \<Rightarrow> Some (0 + inc, Some err, evk\<lparr>gct := ct\<rparr>, r1)
      | (inc, None, ct, r1) \<Rightarrow>
          (let n = 0 + inc; evk1 = evk\<lparr>gct := ct\<rparr> in
           case IsCompressed evk1 of
             None \<Rightarrow> None
           | Some compressed \<Rightarrow>
               if compressed
               then (if length r1 < 32
                     then Some (n + int (length r1), Some (ErrExternal ''unexpected EOF''), evk1, [])
                     else Some (n + 32, None, evk1\<lparr>Seed := Some (take 32 r1)\<rparr>, drop 32 r1))
               else Some (n, None, evk1, r1)))"

text \<open>
  What the layout can hold: every length fits the 8-byte prefix and the base-2
  decomposition fits a signed 64-bit number (as every Go \<open>int\<close> does).
\<close>

definition okLen :: "'a list \<Rightarrow> bool" where
  "okLen xs \<longleftrightarrow> length xs < 2 ^ 64"

definition polyOK :: "Poly \<Rightarrow> bool" where
  "polyOK p \<longleftrightarrow> okLen (Coeffs p) \<and> list_all okLen (Coeffs p)"

definition polyQPOK :: "PolyQP \<Rightarrow> bool" where
  "polyQPOK p \<longleftrightarrow> polyOK (Q p) \<and> polyOK (P p)"

definition encodable :: "GadgetCiphertext \<Rightarrow> bool" where
  "encodable ct \<longleftrightarrow>
     - (2 ^ 63) \<le> BaseTwoDecomposition ct \<and> BaseTwoDecomposition ct < 2 ^ 63
     \<and> okLen (Value ct)
     \<and> list_all (\<lambda>row. okLen row \<and> list_all (\<lambda>v. okLen v \<and> list_all polyQPOK v) row) (Value ct)"

section \<open>Example instances\<close>

text \<open>
  A small parameter set (ring degree 2, two RNS digits with one and two base-2 digits)
  and keys allocated from it, used to instantiate the theorems below.
\<close>

definition exParams :: Parameters where
  "exParams = \<lparr>ringN = 2, MaxLevelQ = 1, MaxLevelP = 0,
               DecompositionSizes = (\<lambda>levelQ levelP b2d. [1, 2]),
               NthRootOf = 4\<rparr>"

definition exRlk :: RelinearizationKey where
  "exRlk = newRelinearizationKey exParams 1 0 0 False"

definition exGk5 :: GaloisKey where
  "exGk5 = (newGaloisKey exParams 1 0 0 False)\<lparr>GaloisElement := 5\<rparr>"

definition exGk7 :: GaloisKey where
  "exGk7 = (newGaloisKey exParams 1 0 0 True)\<lparr>GaloisElement := 7\<rparr>"

definition exSeed :: "byte list" where
  "exSeed = replicate 32 7"

definition exSmp :: UniformSampler where
  "exSmp = (\<lambda>seed levelQ levelP k buf. buf)"

definition exEvkCompressed :: EvaluationKey where
  "exEvkCompressed = (newEvaluationKey exParams 1 0 0 True)\<lparr>Seed := Some exSeed\<rparr>"

definition exEvkPlain :: EvaluationKey where
  "exEvkPlain = newEvaluationKey exParams 1 0 0 False"

text \<open>
  Buffers for the compressed key above: one wrong in each field that \<open>Expand\<close>
  checks (degree, number of RNS digits, base-2 digits per row, level of Q, level of P),
  and one that matches.
\<close>

definition exBufDegree :: GadgetCiphertext where
  "exBufDegree = NewGadgetCiphertext exParams 1 1 0 0"

definition exBufRNS :: GadgetCiphertext where
  "exBufRNS = NewGadgetCiphertext
     (exParams\<lparr>DecompositionSizes := (\<lambda>levelQ levelP b2d. [1])\<rparr>) 0 1 0 0"

definition exBufBaseTwo :: GadgetCiphertext where
  "exBufBaseTwo = NewGadgetCiphertext
     (exParams\<lparr>DecompositionSizes := (\<lambda>levelQ levelP b2d. [2, 2])\<rparr>) 0 1 0 0"

definition exBufLevelQ :: GadgetCiphertext where
  "exBufLevelQ = NewGadgetCiphertext exParams 0 0 0 0"

definition exBufLevelP :: GadgetCiphertext where
  "exBufLevelP = NewGadgetCiphertext exParams 0 1 (- 1) 0"

definition exBufOk :: GadgetCiphertext where
  "exBufOk = NewGadgetCiphertext exParams 0 1 0 0"

text \<open>
  A matrix of one row and one polynomial at level 3 of Q and level 1 of P, and a
  bootstrapper whose decoder always fails (ciphertexts, plaintexts and values are
  numbers).
\<close>

definition exPolyMatrix :: PolyMatrix where
  "exPolyMatrix = NewPolyMatrix 2 3 1 1 1"

definition exBootstrapper :: "(nat, nat, nat) SimpleBootstrapper" where
  "exBootstrapper =
     \<lparr>DecryptNew = (\<lambda>ct. ct),
      Decode = (\<lambda>pt values. (Some (ErrExternal ''decode''), values)),
      Encode = (\<lambda>values pt. (None, pt)),
      plaintextFor = (\<lambda>ct. 0),
      EncryptInto = (\<lambda>pt ct. pt),
      LogSlotsOf = (\<lambda>ct. 1),
      Values = [0, 0, 0, 0],
      Counter = 0\<rparr>"







text \<open>
  A permute protocol at ring degree 4 with one modulus, its index table, and stand-ins
  for the collaborators that copy their input. The store holds the scratch polynomial at
  address 0 and the polynomials of a ciphertext (1, 2), of a share (3, 4) and of the
  common reference (5); every other address holds a zero polynomial.
\<close>

definition exPP :: PermuteProtocol where
  "exPP = \<lparr>contextQ = [97], indexMatrix = [0, 1, 3, 2], tmp1 = 0,
           Scale = (\<lambda>p1 p2. p1),
           contextT_NTT = (\<lambda>p1 p2. p1),
           contextT_InvNTT = (\<lambda>p1 p2. p1),
           lift = (\<lambda>p1 p2. p1),
           ModDownPQ = (\<lambda>level p1 p2. p1)\<rparr>"

definition exStore :: store where
  "exStore = (\<lambda>a. \<lparr>Coeffs = [[0, 0, 0, 0]]\<rparr>)
     (1 := \<lparr>Coeffs = [[10, 20, 30, 40]]\<rparr>,
      2 := \<lparr>Coeffs = [[7, 7, 7, 7]]\<rparr>,
      3 := \<lparr>Coeffs = [[1, 2, 3, 4]]\<rparr>,
      4 := \<lparr>Coeffs = [[5, 5, 5, 5]]\<rparr>,
      5 := \<lparr>Coeffs = [[9, 9, 9, 9]]\<rparr>,
      10 := \<lparr>Coeffs = [[90, 5, 0, 0]]\<rparr>,
      11 := \<lparr>Coeffs = [[1, 2, 0, 0]]\<rparr>,
      12 := \<lparr>Coeffs = [[20, 6, 0, 0]]\<rparr>,
      13 := \<lparr>Coeffs = [[3, 4, 0, 0]]\<rparr>,
      14 := \<lparr>Coeffs = [[96, 0, 0, 0]]\<rparr>,
      15 := \<lparr>Coeffs = [[5, 6, 0, 0]]\<rparr>)"







definition exRefreshShare :: RefreshShare where
  "exRefreshShare = \<lparr>RefreshShareDecrypt = 3, RefreshShareRecrypt = 4\<rparr>"

text \<open>
  A stand-in for the ring engine of the key-generation protocol over the ring
  \<open>exRingQP\<close>: the sampler hands out its counter as every coefficient, the transforms
  leave the polynomial as it is, and product and difference are the coordinatewise ones
  modulo the first modulus of Q.
\<close>

definition exEngine :: "nat RingEngine" where
  "exEngine =
     \<lparr>gaussianRead = (\<lambda>g p. (\<lparr>Coeffs = map (map (\<lambda>c. of_nat g)) (Coeffs p)\<rparr>, Suc g)),
      ExtendBasisSmallNormAndCenter = (\<lambda>r polQ levelP polP. \<lparr>Coeffs = take 1 (Coeffs polQ)\<rparr>),
      NTT = (\<lambda>r p. p),
      MForm = (\<lambda>r p. p),
      MulCoeffsMontgomery = (\<lambda>r p1 p2.
         \<lparr>Q = \<lparr>Coeffs = map (\<lambda>(r1, r2). map (\<lambda>(x, y). of_nat (unat x * unat y mod 97)) (zip r1 r2))
                               (zip (Coeffs (Q p1)) (Coeffs (Q p2)))\<rparr>,
          P = P p1\<rparr>),
      Sub = (\<lambda>r p1 p2.
         \<lparr>Q = \<lparr>Coeffs = map (\<lambda>(r1, r2). map (\<lambda>(x, y). of_nat ((unat x + 97 - unat y) mod 97)) (zip r1 r2))
                               (zip (Coeffs (Q p1)) (Coeffs (Q p2)))\<rparr>,
          P = P p1\<rparr>)\<rparr>"

definition exSk :: SecretKey where
  "exSk = \<lparr>skValue = \<lparr>Q = \<lparr>Coeffs = [[2, 5]]\<rparr>, P = \<lparr>Coeffs = []\<rparr>\<rparr>\<rparr>"

definition exCrp :: CKGCRP where
  "exCrp = \<lparr>crpValue = \<lparr>Q = \<lparr>Coeffs = [[10, 20]]\<rparr>, P = \<lparr>Coeffs = []\<rparr>\<rparr>\<rparr>"

definition exCKG3 :: "nat CKGProtocol" where
  "exCKG3 = \<lparr>ckgRingQP = \<lparr>RingQ = [97], RingP = None\<rparr>, ckgMaxLevelP = - 1,
              gaussianSamplerQ = 3\<rparr>"

definition exShareZero :: CKGShare where
  "exShareZero = \<lparr>shareValue = \<lparr>Q = \<lparr>Coeffs = [[0, 0]]\<rparr>, P = \<lparr>Coeffs = []\<rparr>\<rparr>\<rparr>"

text \<open>
  The compressed key above after \<open>Expand\<close> with the sampler above (every cell has
  got its second polynomial), and a writer with room for 1000 bytes.
\<close>

definition exEvkExpanded :: EvaluationKey where
  "exEvkExpanded =
     exEvkCompressed\<lparr>gct := (gct exEvkCompressed)
       \<lparr>Value := map (map (\<lambda>v. v @ [NewPolyQP 2 1 0])) (Value (gct exEvkCompressed))\<rparr>\<rparr>"

definition exWriter :: Writer where
  "exWriter = \<lparr>written = [], room = 1000\<rparr>"

section \<open>Key-set lookups\<close>

lemma insertGaloisKeys_absent:
  "insertGaloisKeys m ks = Some m' \<Longrightarrow> \<forall>k. Some k \<in> set ks \<longrightarrow> GaloisElement k \<noteq> e
    \<Longrightarrow> m' e = m e"
proof (induction m ks rule: insertGaloisKeys.induct)
  case (1 m)
  then show ?case by simp
next
  case (2 m ks)
  then show ?case by simp
next
  case (3 m k ks)
  from "3.prems" have a: "insertGaloisKeys (m(GaloisElement k \<mapsto> Some k)) ks = Some m'"
    by simp
  from "3.prems" have b: "\<forall>k. Some k \<in> set ks \<longrightarrow> GaloisElement k \<noteq> e"
    by simp
  have "m' e = (m(GaloisElement k \<mapsto> Some k)) e"
    by (rule "3.IH" [OF a b])
  moreover from "3.prems" have "GaloisElement k \<noteq> e" by simp
  ultimately show ?case by simp
qed

lemma insertGaloisKeys_present:
  "insertGaloisKeys m (ks1 @ Some k # ks2) = Some m'
    \<Longrightarrow> \<forall>k'. Some k' \<in> set ks2 \<longrightarrow> GaloisElement k' \<noteq> GaloisElement k
    \<Longrightarrow> m' (GaloisElement k) = Some (Some k)"
proof (induction m ks1 rule: insertGaloisKeys.induct)
  case (1 m)
  then have "m' (GaloisElement k) = (m(GaloisElement k \<mapsto> Some k)) (GaloisElement k)"
    using insertGaloisKeys_absent [of "m(GaloisElement k \<mapsto> Some k)" ks2 m' "GaloisElement k"]
    by simp
  then show ?case by simp
next
  case (2 m ks)
  then show ?case by simp
next
  case (3 m k0 ks)
  from "3.prems" have a:
    "insertGaloisKeys (m(GaloisElement k0 \<mapsto> Some k0)) (ks @ Some k # ks2) = Some m'"
    by simp
  show ?case
    by (rule "3.IH" [OF a "3.prems"(2)])
qed

text \<open>
  C4. In a key set built by \<open>NewMemEvaluationKeySet\<close>, \<open>GetGaloisKey\<close> on a Galois
  element that no inserted key carries returns a nil key and the error that names the
  requested element; on the element of an inserted key (the last one inserted under that
  element) it returns exactly that key and no error. \<open>GetRelinearizationKey\<close> returns
  nil and an error when the slot is empty, and the stored key with no error otherwise.
\<close>

theorem GetGaloisKey_GetRelinearizationKey_lookup:
  assumes "NewMemEvaluationKeySet rlk ks = Some eks"
  shows "((\<forall>k. Some k \<in> set ks \<longrightarrow> GaloisElement k \<noteq> e)
            \<longrightarrow> GetGaloisKey eks e = (None, Some (ErrGaloisKeyNil e)))
       \<and> (ks = ks1 @ Some k # ks2
            \<and> (\<forall>k'. Some k' \<in> set ks2 \<longrightarrow> GaloisElement k' \<noteq> GaloisElement k)
            \<longrightarrow> GetGaloisKey eks (GaloisElement k) = (Some k, None))
       \<and> (rlk = None \<longrightarrow> GetRelinearizationKey eks = (None, Some ErrRelinearizationKeyNil))
       \<and> (rlk = Some rk \<longrightarrow> GetRelinearizationKey eks = (Some rk, None))"
proof -
  from assms obtain m where m: "insertGaloisKeys Map.empty ks = Some m"
    and eks: "eks = \<lparr>RelinearizationKey = rlk, GaloisKeys = Some m\<rparr>"
    by (auto simp: NewMemEvaluationKeySet_def split: option.splits)
  have absent: "(\<forall>k. Some k \<in> set ks \<longrightarrow> GaloisElement k \<noteq> e)
           \<longrightarrow> GetGaloisKey eks e = (None, Some (ErrGaloisKeyNil e))"
    using insertGaloisKeys_absent [OF m, of e] by (simp add: GetGaloisKey_def eks)
  have present: "ks = ks1 @ Some k # ks2
           \<and> (\<forall>k'. Some k' \<in> set ks2 \<longrightarrow> GaloisElement k' \<noteq> GaloisElement k)
           \<longrightarrow> GetGaloisKey eks (GaloisElement k) = (Some k, None)"
    using insertGaloisKeys_present [of Map.empty ks1 k ks2 m] m
    by (auto simp: GetGaloisKey_def eks)
  have rnone: "rlk = None \<longrightarrow> GetRelinearizationKey eks = (None, Some ErrRelinearizationKeyNil)"
    by (simp add: GetRelinearizationKey_def eks)
  have rsome: "rlk = Some rk \<longrightarrow> GetRelinearizationKey eks = (Some rk, None)"
    by (simp add: GetRelinearizationKey_def eks)
  from absent present rnone rsome show ?thesis by blast
qed

theorem GetGaloisKey_GetRelinearizationKey_lookup_witness:
  "NewMemEvaluationKeySet (Some exRlk) [Some exGk5, Some exGk7]
     = Some \<lparr>RelinearizationKey = Some exRlk,
             GaloisKeys = Some [5 \<mapsto> Some exGk5, 7 \<mapsto> Some exGk7]\<rparr>
   \<and> GetGaloisKey \<lparr>RelinearizationKey = Some exRlk,
                    GaloisKeys = Some [5 \<mapsto> Some exGk5, 7 \<mapsto> Some exGk7]\<rparr> 3
       = (None, Some (ErrGaloisKeyNil 3))
   \<and> GetGaloisKey \<lparr>RelinearizationKey = Some exRlk,
                    GaloisKeys = Some [5 \<mapsto> Some exGk5, 7 \<mapsto> Some exGk7]\<rparr> 5
       = (Some exGk5, None)
   \<and> GetRelinearizationKey \<lparr>RelinearizationKey = Some exRlk,
                    GaloisKeys = Some [5 \<mapsto> Some exGk5, 7 \<mapsto> Some exGk7]\<rparr>
       = (Some exRlk, None)
   \<and> NewMemEvaluationKeySet None [] = Some \<lparr>RelinearizationKey = None, GaloisKeys = Some Map.empty\<rparr>
   \<and> GetRelinearizationKey \<lparr>RelinearizationKey = None, GaloisKeys = Some Map.empty\<rparr>
       = (None, Some ErrRelinearizationKeyNil)"
proof -
  have h: "NewMemEvaluationKeySet (Some exRlk) [Some exGk5, Some exGk7]
     = Some \<lparr>RelinearizationKey = Some exRlk,
             GaloisKeys = Some [5 \<mapsto> Some exGk5, 7 \<mapsto> Some exGk7]\<rparr>"
    by (simp add: NewMemEvaluationKeySet_def exGk5_def exGk7_def)
  have h0: "NewMemEvaluationKeySet None []
     = Some \<lparr>RelinearizationKey = None, GaloisKeys = Some Map.empty\<rparr>"
    by (simp add: NewMemEvaluationKeySet_def)
  have e5: "GaloisElement exGk5 = 5" and e7: "GaloisElement exGk7 = 7"
    by (simp_all add: exGk5_def exGk7_def)
  show ?thesis
    using GetGaloisKey_GetRelinearizationKey_lookup
            [OF h, of 3 "[]" exGk5 "[Some exGk7]" exRlk]
          GetGaloisKey_GetRelinearizationKey_lookup
            [OF h0, of 0 "[]" exGk5 "[]" exRlk]
          h h0 e5 e7
    by simp
qed

section \<open>EvaluationKey.Expand: errors and success\<close>

lemma expandRow_total:
  "length brow = length erow \<Longrightarrow> list_all (\<lambda>v. v \<noteq> []) erow \<Longrightarrow> list_all (\<lambda>v. v \<noteq> []) brow
   \<Longrightarrow> \<exists>r. expandRow rd k erow brow = Some r"
proof (induction rd k erow brow rule: expandRow.induct)
  case (1 rd k brow)
  then show ?case by simp
next
  case (2 rd k ev evs)
  then show ?case by simp
next
  case (3 rd k ev evs bv bvs)
  from "3.prems" obtain b0 btl e0 etl where bv: "bv = b0 # btl" and ev: "ev = e0 # etl"
    by (cases bv; cases ev) auto
  from "3.prems" have "\<exists>r. expandRow rd (Suc k) evs bvs = Some r"
    using "3.IH" [OF bv ev] by simp
  then show ?case by (auto simp: bv ev)
qed

lemma expandRows_total:
  "map length bval = map length val \<Longrightarrow> cellsNonempty val \<Longrightarrow> cellsNonempty bval
   \<Longrightarrow> \<exists>r. expandRows rd k val bval = Some r"
proof (induction rd k val bval rule: expandRows.induct)
  case (1 rd k bval)
  then show ?case by simp
next
  case (2 rd k er ers)
  then show ?case by simp
next
  case (3 rd k er ers br brs)
  from "3.prems" have "\<exists>r. expandRow rd k er br = Some r"
    by (intro expandRow_total) (simp_all add: cellsNonempty_def)
  then obtain er' br' where r: "expandRow rd k er br = Some (er', br')" by auto
  from "3.prems" have "\<exists>r. expandRows rd (k + length er) ers brs = Some r"
    using "3.IH" [OF r refl] by (simp add: cellsNonempty_def)
  then show ?case using r by auto
qed

lemma compressed_levels:
  assumes "IsCompressed evk = Some True"
  shows "\<exists>lq lp. gctLevelQ (gct evk) = Some lq \<and> gctLevelP (gct evk) = Some lp"
proof -
  from assms obtain v where v: "firstCell (gct evk) = Some v" and "int (length v) - 1 = 0"
    by (auto simp: IsCompressed_def Degree_def)
  then obtain p where "v = [p]" by (cases v) auto
  with v show ?thesis by (simp add: gctLevelQ_def gctLevelP_def firstPoly_def)
qed

lemma Expand_not_compressed:
  "IsCompressed evk = Some False \<Longrightarrow> Expand params smp evk buffer = Err ErrNotCompressed"
  by (simp add: Expand_def)

lemma Expand_seed_missing:
  "IsCompressed evk = Some True \<Longrightarrow> Seed evk = None
    \<Longrightarrow> Expand params smp evk buffer = Err ErrSeedMissing"
  by (simp add: Expand_def)

lemma Expand_check_error:
  assumes "IsCompressed evk = Some True" "Seed evk = Some seed"
    and "gctLevelQ (gct evk) = Some lq" "gctLevelP (gct evk) = Some lp"
    and "checkBuffer buf (BaseRNSDecompositionVectorSize (gct evk))
           (BaseTwoDecompositionVectorSize (gct evk)) lq lp = Err e"
  shows "Expand params smp evk (Some buf) = Err e"
  using assms by (simp add: Expand_def Let_def)

lemma Expand_matching_buffer:
  assumes c: "IsCompressed evk = Some True" and s: "Seed evk = Some seed"
    and m: "bufferMatches buf evk"
    and w: "cellsNonempty (Value (gct evk))" "cellsNonempty (Value buf)"
  shows "\<exists>r. Expand params smp evk (Some buf) = Ok r"
proof -
  from compressed_levels [OF c] obtain lq lp
    where l: "gctLevelQ (gct evk) = Some lq" "gctLevelP (gct evk) = Some lp" by auto
  from m l have chk: "checkBuffer buf (BaseRNSDecompositionVectorSize (gct evk))
           (BaseTwoDecompositionVectorSize (gct evk)) lq lp = Ok ()"
    by (simp add: checkBuffer_def bufferMatches_def)
  from m have "map (\<lambda>row. int (length row)) (Value buf)
                 = map (\<lambda>row. int (length row)) (Value (gct evk))"
    by (simp add: bufferMatches_def BaseTwoDecompositionVectorSize_def)
  then have "map (int \<circ> length) (Value buf) = map (int \<circ> length) (Value (gct evk))"
    by (simp add: comp_def)
  then have "map int (map length (Value buf)) = map int (map length (Value (gct evk)))"
    by simp
  then have len: "map length (Value buf) = map length (Value (gct evk))"
    by (simp add: inj_map_eq_map [OF inj_of_nat] del: map_map)
  from expandRows_total [OF len w]
  obtain r where "expandRows (smp seed lq lp) 0 (Value (gct evk)) (Value buf) = Some r"
    by blast
  with c s l chk show ?thesis
    by (cases r) (simp add: Expand_def Let_def)
qed

lemma NewGadgetCiphertext_cells:
  "cellsNonempty (Value (NewGadgetCiphertext params 0 lq lp b2d))"
  by (simp add: cellsNonempty_def NewGadgetCiphertext_def NewVectorQP_def list_all_iff)

lemma Expand_no_buffer:
  assumes c: "IsCompressed evk = Some True" and s: "Seed evk = Some seed"
    and l: "gctLevelQ (gct evk) = Some lq" "gctLevelP (gct evk) = Some lp"
    and sz: "map int (DecompositionSizes params lq lp (BaseTwoDecomposition (gct evk)))
               = BaseTwoDecompositionVectorSize (gct evk)"
    and w: "cellsNonempty (Value (gct evk))"
  shows "\<exists>r. Expand params smp evk None = Ok r"
proof -
  let ?b = "NewGadgetCiphertext params 0 lq lp (BaseTwoDecomposition (gct evk))"
  have "map int (map length (Value ?b)) = map int (map length (Value (gct evk)))"
    using sz by (simp add: NewGadgetCiphertext_def BaseTwoDecompositionVectorSize_def comp_def)
  then have len: "map length (Value ?b) = map length (Value (gct evk))"
    by (simp add: inj_map_eq_map [OF inj_of_nat] del: map_map)
  from expandRows_total [OF len w NewGadgetCiphertext_cells]
  obtain r where "expandRows (smp seed lq lp) 0 (Value (gct evk)) (Value ?b) = Some r"
    by blast
  with c s l show ?thesis
    by (cases r) (simp add: Expand_def Let_def)
qed

lemma rnsSize_length:
  "BaseRNSDecompositionVectorSize g = int (length (BaseTwoDecompositionVectorSize g))"
  by (simp add: BaseRNSDecompositionVectorSize_def BaseTwoDecompositionVectorSize_def)

lemma checkBuffer_degree:
  "Degree buf = Some d \<Longrightarrow> d \<noteq> 0 \<Longrightarrow> checkBuffer buf r b lq lp = Err (ErrBufferDegree d)"
  by (simp add: checkBuffer_def)

lemma checkBuffer_rns:
  "Degree buf = Some 0 \<Longrightarrow> BaseRNSDecompositionVectorSize buf \<noteq> r
    \<Longrightarrow> checkBuffer buf r b lq lp = Err (ErrBufferRNSSize (BaseRNSDecompositionVectorSize buf) r)"
  by (simp add: checkBuffer_def)

lemma checkBuffer_baseTwo:
  "Degree buf = Some 0 \<Longrightarrow> BaseRNSDecompositionVectorSize buf = r
    \<Longrightarrow> BaseTwoDecompositionVectorSize buf \<noteq> b
    \<Longrightarrow> checkBuffer buf r b lq lp = Err (ErrBufferBaseTwoSize (BaseTwoDecompositionVectorSize buf) b)"
  by (simp add: checkBuffer_def)

lemma checkBuffer_levelQ:
  "Degree buf = Some 0 \<Longrightarrow> BaseRNSDecompositionVectorSize buf = r
    \<Longrightarrow> BaseTwoDecompositionVectorSize buf = b \<Longrightarrow> gctLevelQ buf = Some hq \<Longrightarrow> hq \<noteq> lq
    \<Longrightarrow> checkBuffer buf r b lq lp = Err (ErrBufferLevelQ lq hq)"
  by (simp add: checkBuffer_def)

lemma checkBuffer_levelP:
  "Degree buf = Some 0 \<Longrightarrow> BaseRNSDecompositionVectorSize buf = r
    \<Longrightarrow> BaseTwoDecompositionVectorSize buf = b \<Longrightarrow> gctLevelQ buf = Some lq
    \<Longrightarrow> gctLevelP buf = Some hp \<Longrightarrow> hp \<noteq> lp
    \<Longrightarrow> checkBuffer buf r b lq lp = Err (ErrBufferLevelP lp hp)"
  by (simp add: checkBuffer_def)

text \<open>
  C2. \<open>Expand\<close> returns the "not compressed" error whenever \<open>IsCompressed\<close> is
  false and the "seed is missing" error whenever the key is compressed and the seed is
  nil. On a compressed, seeded key with a caller-supplied buffer, the first field of the
  buffer that disagrees (degree, number of RNS digits, base-2 digits per row, level of Q,
  level of P, in this order) decides the error, one constructor per field; the seven
  errors are pairwise distinct. With a buffer that matches, or with no buffer and
  parameters that give the table of the key, on tables whose cells are not empty, the
  call returns normally.
\<close>

theorem Expand_errors:
  "(IsCompressed evk = Some False \<longrightarrow> Expand params smp evk buffer = Err ErrNotCompressed)
 \<and> (IsCompressed evk = Some True \<and> Seed evk = None
      \<longrightarrow> Expand params smp evk buffer = Err ErrSeedMissing)
 \<and> (IsCompressed evk = Some True \<and> Seed evk = Some seed
      \<and> gctLevelQ (gct evk) = Some lq \<and> gctLevelP (gct evk) = Some lp \<longrightarrow>
      (Degree buf = Some d \<and> d \<noteq> 0
         \<longrightarrow> Expand params smp evk (Some buf) = Err (ErrBufferDegree d))
    \<and> (Degree buf = Some 0
         \<and> BaseRNSDecompositionVectorSize buf \<noteq> BaseRNSDecompositionVectorSize (gct evk)
         \<longrightarrow> Expand params smp evk (Some buf)
               = Err (ErrBufferRNSSize (BaseRNSDecompositionVectorSize buf)
                        (BaseRNSDecompositionVectorSize (gct evk))))
    \<and> (Degree buf = Some 0
         \<and> BaseRNSDecompositionVectorSize buf = BaseRNSDecompositionVectorSize (gct evk)
         \<and> BaseTwoDecompositionVectorSize buf \<noteq> BaseTwoDecompositionVectorSize (gct evk)
         \<longrightarrow> Expand params smp evk (Some buf)
               = Err (ErrBufferBaseTwoSize (BaseTwoDecompositionVectorSize buf)
                        (BaseTwoDecompositionVectorSize (gct evk))))
    \<and> (Degree buf = Some 0
         \<and> BaseTwoDecompositionVectorSize buf = BaseTwoDecompositionVectorSize (gct evk)
         \<and> gctLevelQ buf = Some hq \<and> hq \<noteq> lq
         \<longrightarrow> Expand params smp evk (Some buf) = Err (ErrBufferLevelQ lq hq))
    \<and> (Degree buf = Some 0
         \<and> BaseTwoDecompositionVectorSize buf = BaseTwoDecompositionVectorSize (gct evk)
         \<and> gctLevelQ buf = Some lq \<and> gctLevelP buf = Some hp \<and> hp \<noteq> lp
         \<longrightarrow> Expand params smp evk (Some buf) = Err (ErrBufferLevelP lp hp))
    \<and> (bufferMatches buf evk \<and> cellsNonempty (Value (gct evk)) \<and> cellsNonempty (Value buf)
         \<longrightarrow> (\<exists>r. Expand params smp evk (Some buf) = Ok r))
    \<and> (map int (DecompositionSizes params lq lp (BaseTwoDecomposition (gct evk)))
           = BaseTwoDecompositionVectorSize (gct evk)
         \<and> cellsNonempty (Value (gct evk))
         \<longrightarrow> (\<exists>r. Expand params smp evk None = Ok r)))
 \<and> distinct [ErrNotCompressed, ErrSeedMissing, ErrBufferDegree d, ErrBufferRNSSize a b,
              ErrBufferBaseTwoSize as bs, ErrBufferLevelQ lq hq, ErrBufferLevelP lp hp]"
proof -
  let "?A \<and> ?B \<and> (?H \<longrightarrow> ?M) \<and> ?D" = ?thesis
  have nc: "IsCompressed evk = Some False \<longrightarrow> Expand params smp evk buffer = Err ErrNotCompressed"
    by (simp add: Expand_not_compressed)
  have sm: "IsCompressed evk = Some True \<and> Seed evk = None
      \<longrightarrow> Expand params smp evk buffer = Err ErrSeedMissing"
    by (simp add: Expand_seed_missing)
  have dist: "distinct [ErrNotCompressed, ErrSeedMissing, ErrBufferDegree d, ErrBufferRNSSize a b,
              ErrBufferBaseTwoSize as bs, ErrBufferLevelQ lq hq, ErrBufferLevelP lp hp]"
    by simp
  have main: "(Degree buf = Some d \<and> d \<noteq> 0
         \<longrightarrow> Expand params smp evk (Some buf) = Err (ErrBufferDegree d))
    \<and> (Degree buf = Some 0
         \<and> BaseRNSDecompositionVectorSize buf \<noteq> BaseRNSDecompositionVectorSize (gct evk)
         \<longrightarrow> Expand params smp evk (Some buf)
               = Err (ErrBufferRNSSize (BaseRNSDecompositionVectorSize buf)
                        (BaseRNSDecompositionVectorSize (gct evk))))
    \<and> (Degree buf = Some 0
         \<and> BaseRNSDecompositionVectorSize buf = BaseRNSDecompositionVectorSize (gct evk)
         \<and> BaseTwoDecompositionVectorSize buf \<noteq> BaseTwoDecompositionVectorSize (gct evk)
         \<longrightarrow> Expand params smp evk (Some buf)
               = Err (ErrBufferBaseTwoSize (BaseTwoDecompositionVectorSize buf)
                        (BaseTwoDecompositionVectorSize (gct evk))))
    \<and> (Degree buf = Some 0
         \<and> BaseTwoDecompositionVectorSize buf = BaseTwoDecompositionVectorSize (gct evk)
         \<and> gctLevelQ buf = Some hq \<and> hq \<noteq> lq
         \<longrightarrow> Expand params smp evk (Some buf) = Err (ErrBufferLevelQ lq hq))
    \<and> (Degree buf = Some 0
         \<and> BaseTwoDecompositionVectorSize buf = BaseTwoDecompositionVectorSize (gct evk)
         \<and> gctLevelQ buf = Some lq \<and> gctLevelP buf = Some hp \<and> hp \<noteq> lp
         \<longrightarrow> Expand params smp evk (Some buf) = Err (ErrBufferLevelP lp hp))
    \<and> (bufferMatches buf evk \<and> cellsNonempty (Value (gct evk)) \<and> cellsNonempty (Value buf)
         \<longrightarrow> (\<exists>r. Expand params smp evk (Some buf) = Ok r))
    \<and> (map int (DecompositionSizes params lq lp (BaseTwoDecomposition (gct evk)))
           = BaseTwoDecompositionVectorSize (gct evk)
         \<and> cellsNonempty (Value (gct evk))
         \<longrightarrow> (\<exists>r. Expand params smp evk None = Ok r))"
    if h: "IsCompressed evk = Some True" "Seed evk = Some seed"
       "gctLevelQ (gct evk) = Some lq" "gctLevelP (gct evk) = Some lp"
  proof (intro conjI impI; (elim conjE)?)
    note E = Expand_check_error [OF h]
    show "Expand params smp evk (Some buf) = Err (ErrBufferDegree d)"
      if "Degree buf = Some d" "d \<noteq> 0"
      by (rule E, rule checkBuffer_degree) (fact that)+
    show "Expand params smp evk (Some buf)
               = Err (ErrBufferRNSSize (BaseRNSDecompositionVectorSize buf)
                        (BaseRNSDecompositionVectorSize (gct evk)))"
      if "Degree buf = Some 0"
         "BaseRNSDecompositionVectorSize buf \<noteq> BaseRNSDecompositionVectorSize (gct evk)"
      by (rule E, rule checkBuffer_rns) (fact that)+
    show "Expand params smp evk (Some buf)
               = Err (ErrBufferBaseTwoSize (BaseTwoDecompositionVectorSize buf)
                        (BaseTwoDecompositionVectorSize (gct evk)))"
      if "Degree buf = Some 0"
         "BaseRNSDecompositionVectorSize buf = BaseRNSDecompositionVectorSize (gct evk)"
         "BaseTwoDecompositionVectorSize buf \<noteq> BaseTwoDecompositionVectorSize (gct evk)"
      by (rule E, rule checkBuffer_baseTwo) (fact that)+
    show "Expand params smp evk (Some buf) = Err (ErrBufferLevelQ lq hq)"
      if t: "Degree buf = Some 0"
         "BaseTwoDecompositionVectorSize buf = BaseTwoDecompositionVectorSize (gct evk)"
         "gctLevelQ buf = Some hq" "hq \<noteq> lq"
    proof (rule E, rule checkBuffer_levelQ)
      show "BaseRNSDecompositionVectorSize buf = BaseRNSDecompositionVectorSize (gct evk)"
        by (simp add: rnsSize_length t(2))
    qed (fact t)+
    show "Expand params smp evk (Some buf) = Err (ErrBufferLevelP lp hp)"
      if t: "Degree buf = Some 0"
         "BaseTwoDecompositionVectorSize buf = BaseTwoDecompositionVectorSize (gct evk)"
         "gctLevelQ buf = Some lq" "gctLevelP buf = Some hp" "hp \<noteq> lp"
    proof (rule E, rule checkBuffer_levelP)
      show "BaseRNSDecompositionVectorSize buf = BaseRNSDecompositionVectorSize (gct evk)"
        by (simp add: rnsSize_length t(2))
    qed (fact t)+
    show "\<exists>r. Expand params smp evk (Some buf) = Ok r"
      if "bufferMatches buf evk" "cellsNonempty (Value (gct evk))" "cellsNonempty (Value buf)"
      by (rule Expand_matching_buffer [OF h(1,2) that])
    show "\<exists>r. Expand params smp evk None = Ok r"
      if "map int (DecompositionSizes params lq lp (BaseTwoDecomposition (gct evk)))
           = BaseTwoDecompositionVectorSize (gct evk)"
         "cellsNonempty (Value (gct evk))"
      by (rule Expand_no_buffer [OF h that])
  qed
  have third: "IsCompressed evk = Some True \<and> Seed evk = Some seed
      \<and> gctLevelQ (gct evk) = Some lq \<and> gctLevelP (gct evk) = Some lp \<longrightarrow> ?M"
    by (intro impI, elim conjE, rule main)
  show ?thesis
    by (intro conjI) (rule nc sm third dist)+
qed

lemmas ex_defs = exEvkCompressed_def exEvkPlain_def newEvaluationKey_def NewGadgetCiphertext_def
  exParams_def NewVectorQP_def NewPolyQP_def NewPoly_def IsCompressed_def Degree_def firstCell_def
  firstPoly_def gctLevelQ_def gctLevelP_def LevelQ_def LevelP_def Level_def
  BaseRNSDecompositionVectorSize_def BaseTwoDecompositionVectorSize_def
  exBufDegree_def exBufRNS_def exBufBaseTwo_def exBufLevelQ_def exBufLevelP_def exBufOk_def
  cellsNonempty_def bufferMatches_def

theorem Expand_errors_witness:
  "Expand exParams exSmp exEvkPlain None = Err ErrNotCompressed
 \<and> Expand exParams exSmp (newEvaluationKey exParams 1 0 0 True) None = Err ErrSeedMissing
 \<and> Expand exParams exSmp exEvkCompressed (Some exBufDegree) = Err (ErrBufferDegree 1)
 \<and> Expand exParams exSmp exEvkCompressed (Some exBufRNS) = Err (ErrBufferRNSSize 1 2)
 \<and> Expand exParams exSmp exEvkCompressed (Some exBufBaseTwo)
      = Err (ErrBufferBaseTwoSize [2, 2] [1, 2])
 \<and> Expand exParams exSmp exEvkCompressed (Some exBufLevelQ) = Err (ErrBufferLevelQ 1 0)
 \<and> Expand exParams exSmp exEvkCompressed (Some exBufLevelP) = Err (ErrBufferLevelP 0 (- 1))
 \<and> (\<exists>r. Expand exParams exSmp exEvkCompressed (Some exBufOk) = Ok r)
 \<and> (\<exists>r. Expand exParams exSmp exEvkCompressed None = Ok r)"
proof -
  have plain: "IsCompressed exEvkPlain = Some False"
    by (simp add: ex_defs numeral_2_eq_2)
  have fresh: "IsCompressed (newEvaluationKey exParams 1 0 0 True) = Some True
      \<and> Seed (newEvaluationKey exParams 1 0 0 True) = None"
    by (simp add: ex_defs numeral_2_eq_2)
  have key: "IsCompressed exEvkCompressed = Some True \<and> Seed exEvkCompressed = Some exSeed
      \<and> gctLevelQ (gct exEvkCompressed) = Some 1 \<and> gctLevelP (gct exEvkCompressed) = Some 0"
    by (simp add: ex_defs numeral_2_eq_2)
  have keyRNS: "BaseRNSDecompositionVectorSize (gct exEvkCompressed) = 2"
    and keyB2: "BaseTwoDecompositionVectorSize (gct exEvkCompressed) = [1, 2]"
    and keyCells: "cellsNonempty (Value (gct exEvkCompressed))"
    by (simp_all add: ex_defs numeral_2_eq_2)
  have bDeg: "Degree exBufDegree = Some 1 \<and> (1::int) \<noteq> 0"
    by (simp add: ex_defs numeral_2_eq_2)
  have bRNS: "Degree exBufRNS = Some 0 \<and> BaseRNSDecompositionVectorSize exBufRNS = 1"
    by (simp add: ex_defs numeral_2_eq_2)
  have bB2: "Degree exBufBaseTwo = Some 0 \<and> BaseRNSDecompositionVectorSize exBufBaseTwo = 2
      \<and> BaseTwoDecompositionVectorSize exBufBaseTwo = [2, 2]"
    by (simp add: ex_defs numeral_2_eq_2)
  have bLQ: "Degree exBufLevelQ = Some 0 \<and> BaseTwoDecompositionVectorSize exBufLevelQ = [1, 2]
      \<and> gctLevelQ exBufLevelQ = Some 0"
    by (simp add: ex_defs numeral_2_eq_2)
  have bLP: "Degree exBufLevelP = Some 0 \<and> BaseTwoDecompositionVectorSize exBufLevelP = [1, 2]
      \<and> gctLevelQ exBufLevelP = Some 1 \<and> gctLevelP exBufLevelP = Some (- 1)"
    by (simp add: ex_defs numeral_2_eq_2)
  have bOk: "bufferMatches exBufOk exEvkCompressed \<and> cellsNonempty (Value exBufOk)"
    by (simp add: ex_defs numeral_2_eq_2)
  have sizes: "map int (DecompositionSizes exParams 1 0 (BaseTwoDecomposition (gct exEvkCompressed)))
      = [1, 2]"
    by (simp add: ex_defs)
  have w1: "Expand exParams exSmp exEvkPlain None = Err ErrNotCompressed"
    by (rule Expand_errors [THEN conjunct1, THEN mp, OF plain])
  have w2: "Expand exParams exSmp (newEvaluationKey exParams 1 0 0 True) None = Err ErrSeedMissing"
    by (rule Expand_errors [THEN conjunct2, THEN conjunct1, THEN mp, OF fresh])
  have w3: "Expand exParams exSmp exEvkCompressed (Some exBufDegree) = Err (ErrBufferDegree 1)"
    by (rule Expand_errors [where evk = exEvkCompressed and params = exParams and smp = exSmp
        and seed = exSeed and lq = 1 and lp = 0,
        THEN conjunct2, THEN conjunct2, THEN conjunct1, THEN mp, OF key,
        THEN conjunct1, THEN mp, OF bDeg])
  have w4: "Expand exParams exSmp exEvkCompressed (Some exBufRNS) = Err (ErrBufferRNSSize 1 2)"
    using Expand_errors [where evk = exEvkCompressed and params = exParams and smp = exSmp
        and seed = exSeed and lq = 1 and lp = 0 and buf = exBufRNS,
        THEN conjunct2, THEN conjunct2, THEN conjunct1, THEN mp, OF key,
        THEN conjunct2, THEN conjunct1] bRNS keyRNS by simp
  have w5: "Expand exParams exSmp exEvkCompressed (Some exBufBaseTwo)
      = Err (ErrBufferBaseTwoSize [2, 2] [1, 2])"
    using Expand_errors [where evk = exEvkCompressed and params = exParams and smp = exSmp
        and seed = exSeed and lq = 1 and lp = 0 and buf = exBufBaseTwo,
        THEN conjunct2, THEN conjunct2, THEN conjunct1, THEN mp, OF key,
        THEN conjunct2, THEN conjunct2, THEN conjunct1]
      bB2 keyRNS keyB2 by simp
  have w6: "Expand exParams exSmp exEvkCompressed (Some exBufLevelQ) = Err (ErrBufferLevelQ 1 0)"
    using Expand_errors [where evk = exEvkCompressed and params = exParams and smp = exSmp
        and seed = exSeed and lq = 1 and lp = 0 and buf = exBufLevelQ and hq = 0,
        THEN conjunct2, THEN conjunct2, THEN conjunct1, THEN mp, OF key,
        THEN conjunct2, THEN conjunct2, THEN conjunct2,
        THEN conjunct1] bLQ keyB2 by simp
  have w7: "Expand exParams exSmp exEvkCompressed (Some exBufLevelP) = Err (ErrBufferLevelP 0 (- 1))"
    using Expand_errors [where evk = exEvkCompressed and params = exParams and smp = exSmp
        and seed = exSeed and lq = 1 and lp = 0 and buf = exBufLevelP and hp = "- 1",
        THEN conjunct2, THEN conjunct2, THEN conjunct1, THEN mp, OF key,
        THEN conjunct2, THEN conjunct2,
        THEN conjunct2, THEN conjunct2, THEN conjunct1] bLP keyB2 by simp
  have w8: "\<exists>r. Expand exParams exSmp exEvkCompressed (Some exBufOk) = Ok r"
    using Expand_errors [where evk = exEvkCompressed and params = exParams and smp = exSmp
        and seed = exSeed and lq = 1 and lp = 0 and buf = exBufOk,
        THEN conjunct2, THEN conjunct2, THEN conjunct1, THEN mp, OF key,
        THEN conjunct2, THEN conjunct2, THEN conjunct2,
        THEN conjunct2, THEN conjunct2, THEN conjunct1] bOk keyCells by simp
  have w9: "\<exists>r. Expand exParams exSmp exEvkCompressed None = Ok r"
    using Expand_errors [where evk = exEvkCompressed and params = exParams and smp = exSmp
        and seed = exSeed and lq = 1 and lp = 0,
        THEN conjunct2, THEN conjunct2, THEN conjunct1, THEN mp, OF key,
        THEN conjunct2, THEN conjunct2, THEN conjunct2,
        THEN conjunct2, THEN conjunct2, THEN conjunct2] sizes keyB2 keyCells by simp
  from w1 w2 w3 w4 w5 w6 w7 w8 w9 show ?thesis
    by (intro conjI)
qed

section \<open>Construction, compression flag and seed\<close>

text \<open>
  C1. What the constructors do: \<open>newEvaluationKey\<close>, \<open>newRelinearizationKey\<close> and
  \<open>newGaloisKey\<close> set no seed, whatever the flag \<open>compressed\<close>; on a table with a
  first cell, \<open>IsCompressed\<close> of the new key is the flag, and \<open>IsCompressed\<close> is
  the test \<open>Degree() == 0\<close>. So a key constructed with \<open>compressed = true\<close> is
  compressed and has a nil seed, against the field's comment (the seed must be non-nil iff
  the key is compressed).
\<close>

theorem newEvaluationKey_seed_nil:
  "Seed (newEvaluationKey params levelQ levelP b2d compressed) = None
 \<and> Seed (newRelinearizationKey params levelQ levelP b2d compressed) = None
 \<and> Seed (gk_evk (newGaloisKey params levelQ levelP b2d compressed)) = None
 \<and> (DecompositionSizes params levelQ levelP b2d = n # ns \<and> 0 < n \<longrightarrow>
      IsCompressed (newEvaluationKey params levelQ levelP b2d compressed) = Some compressed
    \<and> IsCompressed (newRelinearizationKey params levelQ levelP b2d compressed) = Some compressed
    \<and> IsCompressed (gk_evk (newGaloisKey params levelQ levelP b2d compressed)) = Some compressed)
 \<and> IsCompressed evk = map_option (\<lambda>d. d = 0) (Degree (gct evk))"
proof -
  have deg: "Degree (NewGadgetCiphertext params d levelQ levelP b2d) = Some (int (nat (d + 1)) - 1)"
    if "DecompositionSizes params levelQ levelP b2d = n # ns" "0 < n" for d
  proof -
    from that(2) obtain m where "n = Suc m" by (cases n) auto
    with that(1) show ?thesis
      by (simp add: Degree_def firstCell_def NewGadgetCiphertext_def NewVectorQP_def)
  qed
  have a: "Seed (newEvaluationKey params levelQ levelP b2d compressed) = None"
    by (simp add: newEvaluationKey_def)
  have b: "Seed (newRelinearizationKey params levelQ levelP b2d compressed) = None"
    by (simp add: newRelinearizationKey_def)
  have c: "Seed (gk_evk (newGaloisKey params levelQ levelP b2d compressed)) = None"
    by (simp add: newGaloisKey_def)
  have d: "DecompositionSizes params levelQ levelP b2d = n # ns \<and> 0 < n \<longrightarrow>
      IsCompressed (newEvaluationKey params levelQ levelP b2d compressed) = Some compressed
    \<and> IsCompressed (newRelinearizationKey params levelQ levelP b2d compressed) = Some compressed
    \<and> IsCompressed (gk_evk (newGaloisKey params levelQ levelP b2d compressed)) = Some compressed"
    using deg [of 0] deg [of 1]
    by (simp add: IsCompressed_def newEvaluationKey_def newRelinearizationKey_def newGaloisKey_def)
  have e: "IsCompressed evk = map_option (\<lambda>d. d = 0) (Degree (gct evk))"
    by (simp add: IsCompressed_def)
  show ?thesis
    by (intro conjI) (rule a b c d e)+
qed

theorem newEvaluationKey_seed_nil_witness:
  "IsCompressed (newEvaluationKey exParams 1 0 0 True) = Some True
 \<and> Seed (newEvaluationKey exParams 1 0 0 True) = None
 \<and> IsCompressed (newRelinearizationKey exParams 1 0 0 True) = Some True
 \<and> Seed (newRelinearizationKey exParams 1 0 0 True) = None
 \<and> IsCompressed (gk_evk (newGaloisKey exParams 1 0 0 True)) = Some True
 \<and> Seed (gk_evk (newGaloisKey exParams 1 0 0 True)) = None
 \<and> IsCompressed (newEvaluationKey exParams 1 0 0 False) = Some False
 \<and> Seed (newEvaluationKey exParams 1 0 0 False) = None"
proof -
  have sz: "DecompositionSizes exParams 1 0 0 = 1 # [2] \<and> (0::nat) < 1"
    by (simp add: exParams_def)
  note T = newEvaluationKey_seed_nil [where params = exParams and levelQ = 1 and levelP = 0
      and ?b2d = 0 and compressed = True and n = 1 and ns = "[2]"]
  note F = newEvaluationKey_seed_nil [where params = exParams and levelQ = 1 and levelP = 0
      and ?b2d = 0 and compressed = False and n = 1 and ns = "[2]"]
  note Tc = T [THEN conjunct2, THEN conjunct2, THEN conjunct2, THEN conjunct1, THEN mp, OF sz]
  note Fc = F [THEN conjunct2, THEN conjunct2, THEN conjunct2, THEN conjunct1, THEN mp, OF sz]
  show ?thesis
    by (intro conjI)
       (rule Tc [THEN conjunct1] T [THEN conjunct1]
             Tc [THEN conjunct2, THEN conjunct1] T [THEN conjunct2, THEN conjunct1]
             Tc [THEN conjunct2, THEN conjunct2]
             T [THEN conjunct2, THEN conjunct2, THEN conjunct1]
             Fc [THEN conjunct1] F [THEN conjunct1])+
qed

text \<open>
  C10. \<open>CopyNew\<close> returns a key whose embedded ciphertext has the value of the
  original's and whose seed is nil, also when the original carries a seed; the copy of a
  compressed key is compressed, so \<open>Expand\<close> on it fails with the "seed is missing"
  error.
\<close>

theorem CopyNew_drops_seed:
  "gct (CopyNew evk) = gct evk
 \<and> Seed (CopyNew evk) = None
 \<and> IsCompressed (CopyNew evk) = IsCompressed evk
 \<and> (IsCompressed evk = Some True
      \<longrightarrow> Expand params smp (CopyNew evk) buffer = Err ErrSeedMissing)"
proof -
  have g: "gct (CopyNew evk) = gct evk"
    by (simp add: CopyNew_def gctCopyNew_def)
  have s: "Seed (CopyNew evk) = None"
    by (simp add: CopyNew_def)
  have c: "IsCompressed (CopyNew evk) = IsCompressed evk"
    by (simp add: IsCompressed_def g)
  have e: "IsCompressed evk = Some True
      \<longrightarrow> Expand params smp (CopyNew evk) buffer = Err ErrSeedMissing"
    using Expand_seed_missing [of "CopyNew evk" params smp buffer] s c by simp
  show ?thesis
    by (intro conjI) (rule g s c e)+
qed

theorem CopyNew_drops_seed_witness:
  "Seed exEvkCompressed = Some exSeed
 \<and> IsCompressed exEvkCompressed = Some True
 \<and> gct (CopyNew exEvkCompressed) = gct exEvkCompressed
 \<and> Seed (CopyNew exEvkCompressed) = None
 \<and> Expand exParams exSmp (CopyNew exEvkCompressed) None = Err ErrSeedMissing"
proof -
  have key: "IsCompressed exEvkCompressed = Some True"
    by (simp add: ex_defs numeral_2_eq_2)
  have seed: "Seed exEvkCompressed = Some exSeed"
    by (simp add: exEvkCompressed_def)
  from key seed CopyNew_drops_seed [of exEvkCompressed exParams exSmp None]
  show ?thesis by simp
qed

section \<open>PolyMatrix levels\<close>

text \<open>
  C9. \<open>PolyMatrix.LevelQ\<close> and \<open>PolyMatrix.LevelP\<close> return the same value; on a
  matrix whose first row holds a polynomial it is the level of the P-part of that first
  polynomial; \<open>LevelQ\<close> is unchanged when the Q-parts of the polynomials of the matrix
  are replaced.
\<close>

theorem PolyMatrix_LevelQ_is_LevelP:
  "pmLevelQ pm = pmLevelP pm
 \<and> (pm = Some (p # ps) # rows \<longrightarrow> pmLevelQ pm = Some (LevelP p) \<and> pmLevelP pm = Some (LevelP p))
 \<and> pmLevelQ (map (map_option (map (\<lambda>p. p\<lparr>Q := f p\<rparr>))) pm) = pmLevelQ pm"
proof -
  have a: "pmLevelQ pm = pmLevelP pm"
    by (simp add: pmLevelQ_def pmLevelP_def)
  have b: "pm = Some (p # ps) # rows
      \<longrightarrow> pmLevelQ pm = Some (LevelP p) \<and> pmLevelP pm = Some (LevelP p)"
    by (simp add: pmLevelQ_def pmLevelP_def pvLevelP_def)
  have c: "pmLevelQ (map (map_option (map (\<lambda>p. p\<lparr>Q := f p\<rparr>))) pm) = pmLevelQ pm"
  proof (cases pm)
    case Nil
    then show ?thesis by (simp add: pmLevelQ_def)
  next
    case (Cons row rows)
    show ?thesis
    proof (cases row)
      case None
      with Cons show ?thesis by (simp add: pmLevelQ_def)
    next
      case (Some pv)
      with Cons show ?thesis
        by (cases pv) (simp_all add: pmLevelQ_def pvLevelP_def LevelP_def)
    qed
  qed
  show ?thesis
    by (intro conjI) (rule a b c)+
qed

theorem PolyMatrix_LevelQ_is_LevelP_witness:
  "exPolyMatrix = Some (NewPolyQP 2 3 1 # []) # []
 \<and> LevelQ (NewPolyQP 2 3 1) = 3
 \<and> LevelP (NewPolyQP 2 3 1) = 1
 \<and> pmLevelQ exPolyMatrix = Some 1
 \<and> pmLevelP exPolyMatrix = Some 1"
proof -
  have m: "exPolyMatrix = Some (NewPolyQP 2 3 1 # []) # []"
    by (simp add: exPolyMatrix_def NewPolyMatrix_def NewPolyVector_def)
  have lq: "LevelQ (NewPolyQP 2 3 1) = 3" and lp: "LevelP (NewPolyQP 2 3 1) = 1"
    by (simp_all add: LevelQ_def LevelP_def Level_def NewPolyQP_def NewPoly_def)
  from PolyMatrix_LevelQ_is_LevelP [of exPolyMatrix "NewPolyQP 2 3 1" "[]" "[]",
      THEN conjunct2, THEN conjunct1, THEN mp, OF m] lp
  have "pmLevelQ exPolyMatrix = Some 1 \<and> pmLevelP exPolyMatrix = Some 1"
    by simp
  with m lq lp show ?thesis by simp
qed

section \<open>SimpleBootstrapper.BootstrapMany\<close>

lemma bootstrapEach_length:
  "bootstrapEach d cts = Some (cts', d') \<Longrightarrow> length cts' = length cts"
proof (induction cts arbitrary: d cts')
  case Nil
  then show ?case by simp
next
  case (Cons ct cts)
  then show ?case
    by (auto split: option.splits prod.splits)
qed

text \<open>
  C8. What \<open>BootstrapMany\<close> does: whenever it returns, the error it returns is nil and
  the slice keeps its length, whatever \<open>Bootstrap\<close> returned on the elements; an
  element on which \<open>Bootstrap\<close> failed is stored as the nil pointer that came with the
  error. So the claim that \<open>BootstrapMany\<close> returns a non-nil error when
  \<open>Bootstrap\<close> fails on an element does not hold of the code.
\<close>

theorem BootstrapMany_error_nil:
  "BootstrapMany d cts = Some ((cts', err), d') \<Longrightarrow> err = None \<and> length cts' = length cts"
  by (auto simp: BootstrapMany_def bootstrapEach_length split: option.splits prod.splits)

theorem BootstrapMany_error_nil_witness:
  "Bootstrap exBootstrapper (Some 5) = Some ((None, Some (ErrExternal ''decode'')), exBootstrapper)
 \<and> BootstrapMany exBootstrapper [Some 5] = Some (([None], None), exBootstrapper)"
proof -
  have v: "Values exBootstrapper = [0, 0, 0, 0]"
    by (simp add: exBootstrapper_def)
  have b: "Bootstrap exBootstrapper (Some 5)
      = Some ((None, Some (ErrExternal ''decode'')), exBootstrapper)"
    by (simp add: Bootstrap_def Let_def v) (simp add: exBootstrapper_def)
  then obtain r where m: "BootstrapMany exBootstrapper [Some 5] = Some (([None], r), exBootstrapper)"
    by (simp add: BootstrapMany_def)
  from BootstrapMany_error_nil [OF m] have "r = None" by simp
  with b m show ?thesis by simp
qed

section \<open>Aggregation of shares\<close>























section \<open>PermuteProtocol.Finalize\<close>

text \<open>
  C7. What \<open>Finalize\<close> does: it is the sequence \<open>Decrypt\<close>, \<open>Permute\<close>,
  \<open>Recrypt\<close> run on the scratch polynomial \<open>tmp1\<close> of the protocol, the polynomial
  that \<open>Permute\<close> also uses as the target of \<open>permuteWithIndex\<close>; so in
  \<open>Finalize\<close> the permutation reads coefficients it has already overwritten. On the
  example (ring degree 4, the index table of \<open>NewPermuteProtocol\<close> for generator 5, the
  permutation that swaps the first two slots) \<open>Finalize\<close> leaves \<open>[27, 27, 38, 49]\<close>
  in the first polynomial of the output ciphertext, and the three calls on a polynomial of
  the caller's leave \<open>[27, 16, 38, 49]\<close>.
\<close>

theorem Finalize_permutes_in_place:
  "Finalize pp h ct perm crs share out
     = DecryptPermuteRecrypt pp h ct perm crs share (tmp1 pp) out
 \<and> indexMatrix exPP = newIndexMatrix 4 5
 \<and> map_option (\<lambda>h. Coeffs (h 6))
       (Finalize exPP exStore [1, 2] [1, 0, 2, 3] 5 exRefreshShare [6, 7])
     = Some [[27, 27, 38, 49]]
 \<and> map_option (\<lambda>h. Coeffs (h 6))
       (DecryptPermuteRecrypt exPP exStore [1, 2] [1, 0, 2, 3] 5 exRefreshShare 8 [6, 7])
     = Some [[27, 16, 38, 49]]"
proof -
  note defs = Finalize_def DecryptPermuteRecrypt_def Decrypt_def Permute_def Recrypt_def
    permuteWithIndex_def permuteStep_def ringAdd_def rowsAdd_def rowAdd_def addMod_def
    exPP_def exStore_def exRefreshShare_def Let_def
  have a: "Finalize pp h ct perm crs share out
     = DecryptPermuteRecrypt pp h ct perm crs share (tmp1 pp) out"
    by (simp add: Finalize_def DecryptPermuteRecrypt_def)
  have b: "indexMatrix exPP = newIndexMatrix 4 5"
  proof -
    have "newIndexMatrix 4 5 = [0, 1, 3, 2]" by code_simp
    then show ?thesis by (simp add: exPP_def)
  qed
  have c: "map_option (\<lambda>h. Coeffs (h 6))
       (Finalize exPP exStore [1, 2] [1, 0, 2, 3] 5 exRefreshShare [6, 7])
     = Some [[27, 27, 38, 49]]"
    by (simp add: defs upt_rec)
  have d: "map_option (\<lambda>h. Coeffs (h 6))
       (DecryptPermuteRecrypt exPP exStore [1, 2] [1, 0, 2, 3] 5 exRefreshShare 8 [6, 7])
     = Some [[27, 16, 38, 49]]"
    by (simp add: defs upt_rec)
  show ?thesis
    by (intro conjI) (rule a b c d)+
qed

section \<open>CKGProtocol.GenShare\<close>

text \<open>
  C6. \<open>GenShare\<close> leaves in the share \<open>e - sk * crp\<close>: the difference, taken by the
  ring engine, of \<open>e\<close> and the Montgomery product of the secret key and the common
  reference polynomial, where \<open>e\<close> is the polynomial that the Gaussian sampler draws
  into the Q-part, extended onto the P-part when the ring has moduli of P (the P-part is
  left as it was otherwise), then taken to the NTT domain and to Montgomery form. The
  sampler of the protocol advances by that one draw.
\<close>

theorem GenShare_is_error_minus_product:
  "shareValue (fst (GenShare eng ckg sk crp shareOut))
     = Sub eng (ckgRingQP ckg)
         (MForm eng (ckgRingQP ckg)
            (NTT eng (ckgRingQP ckg)
               \<lparr>Q = fst (gaussianRead eng (gaussianSamplerQ ckg) (Q (shareValue shareOut))),
                P = (case RingP (ckgRingQP ckg) of
                       None \<Rightarrow> P (shareValue shareOut)
                     | Some moduliP \<Rightarrow>
                         ExtendBasisSmallNormAndCenter eng (ckgRingQP ckg)
                           (fst (gaussianRead eng (gaussianSamplerQ ckg) (Q (shareValue shareOut))))
                           (ckgMaxLevelP ckg) (P (shareValue shareOut)))\<rparr>))
         (MulCoeffsMontgomery eng (ckgRingQP ckg) (skValue sk) (crpValue crp))
 \<and> gaussianSamplerQ (snd (GenShare eng ckg sk crp shareOut))
     = snd (gaussianRead eng (gaussianSamplerQ ckg) (Q (shareValue shareOut)))"
proof -
  have upd: "p\<lparr>Q := e\<rparr> = \<lparr>Q = e, P = P p\<rparr>" "p\<lparr>Q := e, P := f\<rparr> = \<lparr>Q = e, P = f\<rparr>"
    for p :: PolyQP and e f
    by (cases p; simp)+
  show ?thesis
    by (cases "RingP (ckgRingQP ckg)")
       (simp_all add: GenShare_def Let_def split_def MulCoeffsMontgomeryThenSub_def upd)
qed

theorem GenShare_is_error_minus_product_witness:
  "GenShare exEngine exCKG3 exSk exCrp exShareZero
     = (\<lparr>shareValue = \<lparr>Q = \<lparr>Coeffs = [[80, 0]]\<rparr>, P = \<lparr>Coeffs = []\<rparr>\<rparr>\<rparr>,
        exCKG3\<lparr>gaussianSamplerQ := 4\<rparr>)"
proof -
  note T = GenShare_is_error_minus_product [of exEngine exCKG3 exSk exCrp exShareZero]
  have v: "shareValue (fst (GenShare exEngine exCKG3 exSk exCrp exShareZero))
      = \<lparr>Q = \<lparr>Coeffs = [[80, 0]]\<rparr>, P = \<lparr>Coeffs = []\<rparr>\<rparr>"
    unfolding T [THEN conjunct1]
    by (simp add: exEngine_def exCKG3_def exSk_def exCrp_def exShareZero_def)
  have g: "gaussianSamplerQ (snd (GenShare exEngine exCKG3 exSk exCrp exShareZero)) = 4"
    unfolding T [THEN conjunct2]
    by (simp add: exEngine_def exCKG3_def exShareZero_def)
  have "fst (GenShare exEngine exCKG3 exSk exCrp exShareZero)
      = \<lparr>shareValue = \<lparr>Q = \<lparr>Coeffs = [[80, 0]]\<rparr>, P = \<lparr>Coeffs = []\<rparr>\<rparr>\<rparr>"
    using v by (cases "fst (GenShare exEngine exCKG3 exSk exCrp exShareZero)") simp
  moreover have "snd (GenShare exEngine exCKG3 exSk exCrp exShareZero)
      = exCKG3\<lparr>gaussianSamplerQ := 4\<rparr>"
    using g by (simp add: GenShare_def Let_def split_def)
  ultimately show ?thesis
    by (simp add: prod_eq_iff)
qed

section \<open>Encoding: sizes, WriteTo and BinarySize\<close>

lemma length_u64le: "length (u64le x) = 8"
  by (simp add: u64le_def)

lemma length_encVec:
  "(\<And>x. x \<in> set xs \<Longrightarrow> int (length (enc x)) = sz x)
    \<Longrightarrow> int (length (encVec enc xs)) = sizeVec sz xs"
proof (induction xs)
  case Nil
  then show ?case by (simp add: encVec_def sizeVec_def length_u64le)
next
  case (Cons x xs)
  then have "int (length (encVec enc xs)) = sizeVec sz xs" by simp
  moreover have "int (length (enc x)) = sz x" using Cons.prems by simp
  ultimately show ?case
    by (simp add: encVec_def sizeVec_def length_u64le)
qed

lemma length_encPoly: "int (length (encPoly p)) = sizePoly p"
  unfolding encPoly_def sizePoly_def
  by (intro length_encVec) (simp add: length_u64le)

lemma length_encPolyQP: "int (length (encPolyQP p)) = sizePolyQP p"
  by (simp add: encPolyQP_def sizePolyQP_def length_encPoly)

lemma length_gctEncode: "int (length (gctEncode ct)) = gctBinarySize ct"
proof -
  have "int (length (encVec (encVec (encVec encPolyQP)) (Value ct)))
      = sizeVec (sizeVec (sizeVec sizePolyQP)) (Value ct)"
    by (intro length_encVec length_encPolyQP)
  then show ?thesis
    by (simp add: gctEncode_def gctBinarySize_def length_u64le)
qed

lemma WriteTo_uncompressed:
  assumes "IsCompressed evk = Some False" "length (gctEncode (gct evk)) \<le> room w"
  shows "WriteTo evk w
    = Some (gctBinarySize (gct evk), None,
            \<lparr>written = written w @ gctEncode (gct evk),
             room = room w - length (gctEncode (gct evk))\<rparr>)"
  using assms
  by (simp add: WriteTo_def gctWriteTo_def writeBytes_def Let_def length_gctEncode)

lemma WriteTo_compressed:
  assumes "IsCompressed evk = Some True" "Seed evk = Some seed"
    and "length (gctEncode (gct evk)) + length seed \<le> room w"
  shows "WriteTo evk w
    = Some (gctBinarySize (gct evk) + int (length seed), None,
            \<lparr>written = written w @ gctEncode (gct evk) @ seed,
             room = room w - length (gctEncode (gct evk)) - length seed\<rparr>)"
  using assms
  by (simp add: WriteTo_def gctWriteTo_def writeBytes_def Let_def length_gctEncode)

lemma WriteTo_seed_nil:
  assumes "IsCompressed evk = Some True" "Seed evk = None"
    and "length (gctEncode (gct evk)) \<le> room w"
  shows "WriteTo evk w
    = Some (2 * gctBinarySize (gct evk), Some ErrWriteSeedNil,
            \<lparr>written = written w @ gctEncode (gct evk),
             room = room w - length (gctEncode (gct evk))\<rparr>)"
  using assms
  by (simp add: WriteTo_def gctWriteTo_def writeBytes_def Let_def length_gctEncode)

lemma expandRows_first_cell:
  assumes "expandRows rd k ((c # row) # rows) bval = Some (val', bval')"
  shows "\<exists>e0 x rest rows'. val' = ([e0, x] # rest) # rows'"
proof (cases bval)
  case Nil
  with assms show ?thesis by simp
next
  case (Cons br brs)
  show ?thesis
  proof (cases br)
    case Nil
    with Cons assms show ?thesis by simp
  next
    case c2: (Cons bv bvs)
    with Cons assms show ?thesis
      by (auto split: list.splits option.splits)
  qed
qed

lemma Expand_keeps_seed:
  assumes "Expand params smp evk buffer = Ok (evk', b')"
  shows "Seed evk' = Seed evk \<and> Seed evk \<noteq> None \<and> IsCompressed evk' = Some False"
proof -
  from assms have c: "IsCompressed evk = Some True"
    by (auto simp: Expand_def split: option.splits if_splits)
  from assms c obtain seed where s: "Seed evk = Some seed"
    by (auto simp: Expand_def split: option.splits)
  from c obtain cell row rows where v: "Value (gct evk) = (cell # row) # rows"
    by (auto simp: IsCompressed_def Degree_def firstCell_def split: list.splits)
  from compressed_levels [OF c] obtain lq lp
    where l: "gctLevelQ (gct evk) = Some lq" "gctLevelP (gct evk) = Some lp" by auto
  define b where "b = (case buffer of Some b0 \<Rightarrow> b0
    | None \<Rightarrow> NewGadgetCiphertext params 0 lq lp (BaseTwoDecomposition (gct evk)))"
  have "\<exists>val' bval'.
      expandRows (smp seed lq lp) 0 (Value (gct evk)) (Value b) = Some (val', bval')
      \<and> evk' = evk\<lparr>gct := (gct evk)\<lparr>Value := val'\<rparr>\<rparr>"
    using assms c s l
    by (cases buffer)
       (auto simp: Expand_def Let_def b_def split: option.splits outcome.splits prod.splits)
  then obtain val' bval' where
    r: "expandRows (smp seed lq lp) 0 (Value (gct evk)) (Value b) = Some (val', bval')"
    and k: "evk' = evk\<lparr>gct := (gct evk)\<lparr>Value := val'\<rparr>\<rparr>"
    by blast
  from expandRows_first_cell [OF r [unfolded v]]
  obtain e0 x rest rows' where "val' = ([e0, x] # rest) # rows'" by blast
  with k s show ?thesis
    by (simp add: IsCompressed_def Degree_def firstCell_def)
qed

lemma le_step:
  "ucast (ucast (drop_bit k x) :: byte) OR push_bit 8 (drop_bit (k + 8) x) = drop_bit k (x :: uint64)"
proof (rule bit_word_eqI)
  fix n
  assume n: "n < LENGTH(64)"
  show "bit (ucast (ucast (drop_bit k x) :: byte) OR push_bit 8 (drop_bit (k + 8) x)) n
      = bit (drop_bit k x) n"
  proof (cases "n < 8")
    case True
    then show ?thesis
      by (auto simp: bit_simps)
  next
    case False
    then have "k + 8 + (n - 8) = k + n" by simp
    with False n show ?thesis
      by (auto simp: bit_simps)
  qed
qed

lemma le_last: "ucast (ucast (drop_bit 56 x) :: byte) = drop_bit 56 (x :: uint64)"
  by (rule bit_word_eqI) (auto simp: bit_simps dest: bit_imp_le_length)

lemma fromLE_u64le: "fromLE (u64le x) = x"
proof -
  have e: "u64le x = [ucast (drop_bit 0 x), ucast (drop_bit 8 x), ucast (drop_bit 16 x),
      ucast (drop_bit 24 x), ucast (drop_bit 32 x), ucast (drop_bit 40 x),
      ucast (drop_bit 48 x), ucast (drop_bit 56 x)]"
    by (simp add: u64le_def upt_rec)
  show ?thesis
    unfolding e fromLE_def
    by (simp add: le_last le_step [of 48, simplified] le_step [of 40, simplified]
        le_step [of 32, simplified] le_step [of 24, simplified] le_step [of 16, simplified]
        le_step [of 8, simplified] le_step [of 0, simplified])
qed

lemma decU64_enc: "decU64 (u64le x @ r) = Some (x, r)"
  by (simp add: decU64_def length_u64le fromLE_u64le)

lemma decN_enc:
  "(\<And>x r. x \<in> set xs \<Longrightarrow> dec (enc x @ r) = Some (x, r))
    \<Longrightarrow> decN dec (length xs) (concat (map enc xs) @ r) = Some (xs, r)"
  by (induction xs arbitrary: r) simp_all

lemma decVec_enc:
  assumes "okLen xs" and "\<And>x r. x \<in> set xs \<Longrightarrow> dec (enc x @ r) = Some (x, r)"
  shows "decVec dec (encVec enc xs @ r) = Some (xs, r)"
proof -
  from assms(1) have "unat (of_nat (length xs) :: uint64) = length xs"
    by (simp add: okLen_def of_nat_inverse)
  with decN_enc [of xs dec enc r] assms(2) show ?thesis
    by (simp add: decVec_def encVec_def decU64_enc)
qed

lemma decPoly_enc:
  assumes "polyOK p"
  shows "decPoly (encPoly p @ r) = Some (p, r)"
proof -
  have row: "decVec decU64 (encVec u64le c @ r') = Some (c, r')"
    if "c \<in> set (Coeffs p)" for c r'
    using that assms
    by (intro decVec_enc) (auto simp: polyOK_def list_all_iff decU64_enc)
  have "decVec (decVec decU64) (encVec (encVec u64le) (Coeffs p) @ r) = Some (Coeffs p, r)"
    using assms by (intro decVec_enc row) (simp_all add: polyOK_def)
  then show ?thesis
    by (simp add: decPoly_def encPoly_def)
qed

lemma decPolyQP_enc:
  assumes "polyQPOK p"
  shows "decPolyQP (encPolyQP p @ r) = Some (p, r)"
  using assms decPoly_enc [of "Q p" "encPoly (P p) @ r"] decPoly_enc [of "P p" r]
  by (simp add: decPolyQP_def encPolyQP_def polyQPOK_def)

lemma gctDecode_enc:
  assumes "encodable ct"
  shows "gctDecode (gctEncode ct @ r) = Some (ct, r)"
proof -
  have cell: "decVec decPolyQP (encVec encPolyQP v @ r') = Some (v, r')"
    if "okLen v" "list_all polyQPOK v" for v r'
    using that by (intro decVec_enc decPolyQP_enc) (simp_all add: list_all_iff)
  have row: "decVec (decVec decPolyQP) (encVec (encVec encPolyQP) rw @ r') = Some (rw, r')"
    if "okLen rw" "list_all (\<lambda>v. okLen v \<and> list_all polyQPOK v) rw" for rw r'
    using that by (intro decVec_enc cell) (simp_all add: list_all_iff)
  have tab: "decVec (decVec (decVec decPolyQP)) (encVec (encVec (encVec encPolyQP)) (Value ct) @ r)
      = Some (Value ct, r)"
    using assms by (intro decVec_enc row) (simp_all add: encodable_def list_all_iff)
  have b: "sint (of_int (BaseTwoDecomposition ct) :: uint64) = BaseTwoDecomposition ct"
    using assms
    by (simp add: signed_of_int encodable_def signed_take_bit_int_eq_self)
  show ?thesis
    using tab b by (simp add: gctDecode_def gctEncode_def decU64_enc)
qed

lemma gctReadFrom_enc:
  "encodable ct \<Longrightarrow> gctReadFrom ct0 (gctEncode ct @ r) = (int (length (gctEncode ct)), None, ct, r)"
  by (simp add: gctReadFrom_def gctDecode_enc)

lemma ReadFrom_uncompressed:
  assumes "IsCompressed evk = Some False" "encodable (gct evk)"
  shows "ReadFrom fresh (gctEncode (gct evk))
    = Some (gctBinarySize (gct evk), None, fresh\<lparr>gct := gct evk\<rparr>, [])"
proof -
  have "IsCompressed (fresh\<lparr>gct := gct evk\<rparr>) = Some False"
    using assms(1) by (simp add: IsCompressed_def)
  then show ?thesis
    using gctReadFrom_enc [OF assms(2), of "gct fresh" "[]"]
    by (simp add: ReadFrom_def Let_def length_gctEncode)
qed

lemma ReadFrom_compressed:
  assumes "IsCompressed evk = Some True" "encodable (gct evk)" "length seed = 32"
  shows "ReadFrom fresh (gctEncode (gct evk) @ seed)
    = Some (gctBinarySize (gct evk) + 32, None, fresh\<lparr>gct := gct evk, Seed := Some seed\<rparr>, [])"
proof -
  have "IsCompressed (fresh\<lparr>gct := gct evk\<rparr>) = Some True"
    using assms(1) by (simp add: IsCompressed_def)
  then show ?thesis
    using gctReadFrom_enc [OF assms(2), of "gct fresh" seed] assms(3)
    by (simp add: ReadFrom_def Let_def length_gctEncode)
qed

text \<open>
  For a key whose seed is present exactly when it is compressed, with a seed of 32 bytes
  and lengths that fit 64 bits: \<open>WriteTo\<close> writes \<open>BinarySize\<close> bytes, the payload
  followed by the seed iff compressed, and \<open>ReadFrom\<close> on these bytes into a key
  without seed gives the key back.
\<close>

lemma WriteTo_ReadFrom_roundtrip:
  assumes inv: "IsCompressed evk = Some (Seed evk \<noteq> None)"
    and len: "\<And>s. Seed evk = Some s \<Longrightarrow> length s = 32"
    and enc: "encodable (gct evk)"
    and fresh: "Seed fresh = None"
    and rm: "nat (BinarySize evk) \<le> room w"
  shows "\<exists>bs. WriteTo evk w
           = Some (BinarySize evk, None, \<lparr>written = written w @ bs, room = room w - length bs\<rparr>)
         \<and> int (length bs) = BinarySize evk
         \<and> bs = gctEncode (gct evk) @ (case Seed evk of None \<Rightarrow> [] | Some s \<Rightarrow> s)
         \<and> ReadFrom fresh bs = Some (BinarySize evk, None, evk, [])"
proof (cases "Seed evk")
  case None
  with inv have c: "IsCompressed evk = Some False" by simp
  from None rm have r: "length (gctEncode (gct evk)) \<le> room w"
    using length_gctEncode [of "gct evk"] by (simp add: BinarySize_def)
  have e: "fresh\<lparr>gct := gct evk\<rparr> = evk"
    using None fresh by (cases evk; cases fresh) simp
  show ?thesis
    using WriteTo_uncompressed [OF c r] ReadFrom_uncompressed [OF c enc, of fresh] None e
    by (simp add: BinarySize_def length_gctEncode)
next
  case (Some s)
  with inv have c: "IsCompressed evk = Some True" by simp
  from Some len have l: "length s = 32" by simp
  from Some rm l have r: "length (gctEncode (gct evk)) + length s \<le> room w"
    using length_gctEncode [of "gct evk"] by (simp add: BinarySize_def)
  have e: "fresh\<lparr>gct := gct evk, Seed := Some s\<rparr> = evk"
    using Some by (cases evk; cases fresh) simp
  show ?thesis
    using WriteTo_compressed [OF c Some r] ReadFrom_compressed [OF c enc l, of fresh] Some e l
    by (simp add: BinarySize_def length_gctEncode)
qed

text \<open>
  C3. Where \<open>WriteTo\<close> and \<open>BinarySize\<close> part: \<open>BinarySize\<close> counts the seed when
  the seed is present, \<open>WriteTo\<close> writes it when the key is compressed. \<open>Expand\<close>
  leaves a key of degree 1 that still holds its seed; on such a key \<open>WriteTo\<close> writes
  the payload only, \<open>BinarySize\<close> minus the length of the seed, and \<open>ReadFrom\<close> on
  these bytes gives a key without the seed. On a compressed key without seed (as the
  constructor returns it) \<open>WriteTo\<close> returns the "seed is nil" error with twice
  \<open>BinarySize\<close> as its count.
\<close>

theorem WriteTo_differs_from_BinarySize:
  "(Expand params smp evk buffer = Ok (evk', b')
      \<longrightarrow> Seed evk' = Seed evk \<and> Seed evk \<noteq> None \<and> IsCompressed evk' = Some False)
 \<and> (IsCompressed evk = Some False \<and> Seed evk = Some seed
      \<and> length (gctEncode (gct evk)) \<le> room w
      \<longrightarrow> WriteTo evk w
            = Some (BinarySize evk - int (length seed), None,
                    \<lparr>written = written w @ gctEncode (gct evk),
                     room = room w - length (gctEncode (gct evk))\<rparr>)
        \<and> (encodable (gct evk)
            \<longrightarrow> ReadFrom fresh (gctEncode (gct evk))
                  = Some (BinarySize evk - int (length seed), None, fresh\<lparr>gct := gct evk\<rparr>, [])))
 \<and> (IsCompressed evk = Some True \<and> Seed evk = None
      \<and> length (gctEncode (gct evk)) \<le> room w
      \<longrightarrow> WriteTo evk w
            = Some (2 * BinarySize evk, Some ErrWriteSeedNil,
                    \<lparr>written = written w @ gctEncode (gct evk),
                     room = room w - length (gctEncode (gct evk))\<rparr>))"
proof -
  have a: "Expand params smp evk buffer = Ok (evk', b')
      \<longrightarrow> Seed evk' = Seed evk \<and> Seed evk \<noteq> None \<and> IsCompressed evk' = Some False"
    using Expand_keeps_seed [of params smp evk buffer evk' b'] by blast
  have b: "IsCompressed evk = Some False \<and> Seed evk = Some seed
      \<and> length (gctEncode (gct evk)) \<le> room w
      \<longrightarrow> WriteTo evk w
            = Some (BinarySize evk - int (length seed), None,
                    \<lparr>written = written w @ gctEncode (gct evk),
                     room = room w - length (gctEncode (gct evk))\<rparr>)
        \<and> (encodable (gct evk)
            \<longrightarrow> ReadFrom fresh (gctEncode (gct evk))
                  = Some (BinarySize evk - int (length seed), None, fresh\<lparr>gct := gct evk\<rparr>, []))"
  proof (intro impI conjI; elim conjE)
    assume h: "IsCompressed evk = Some False" "Seed evk = Some seed"
      "length (gctEncode (gct evk)) \<le> room w"
    show "WriteTo evk w
            = Some (BinarySize evk - int (length seed), None,
                    \<lparr>written = written w @ gctEncode (gct evk),
                     room = room w - length (gctEncode (gct evk))\<rparr>)"
      using WriteTo_uncompressed [OF h(1,3)] h(2) by (simp add: BinarySize_def)
    show "ReadFrom fresh (gctEncode (gct evk))
            = Some (BinarySize evk - int (length seed), None, fresh\<lparr>gct := gct evk\<rparr>, [])"
      if "encodable (gct evk)"
      using ReadFrom_uncompressed [OF h(1) that, of fresh] h(2) by (simp add: BinarySize_def)
  qed
  have c: "IsCompressed evk = Some True \<and> Seed evk = None
      \<and> length (gctEncode (gct evk)) \<le> room w
      \<longrightarrow> WriteTo evk w
            = Some (2 * BinarySize evk, Some ErrWriteSeedNil,
                    \<lparr>written = written w @ gctEncode (gct evk),
                     room = room w - length (gctEncode (gct evk))\<rparr>)"
    using WriteTo_seed_nil [of evk w] by (simp add: BinarySize_def)
  show ?thesis
    by (intro conjI) (rule a b c)+
qed

theorem WriteTo_differs_from_BinarySize_witness:
  "Expand exParams exSmp exEvkCompressed None = Ok (exEvkExpanded, exBufOk)
 \<and> Seed exEvkExpanded = Some exSeed
 \<and> IsCompressed exEvkExpanded = Some False
 \<and> BinarySize exEvkExpanded = 616
 \<and> WriteTo exEvkExpanded exWriter
      = Some (584, None, \<lparr>written = gctEncode (gct exEvkExpanded), room = 416\<rparr>)
 \<and> ReadFrom (newEvaluationKey exParams 1 0 0 False) (gctEncode (gct exEvkExpanded))
      = Some (584, None, exEvkExpanded\<lparr>Seed := None\<rparr>, [])
 \<and> BinarySize (newEvaluationKey exParams 1 0 0 True) = 320
 \<and> WriteTo (newEvaluationKey exParams 1 0 0 True) exWriter
      = Some (640, Some ErrWriteSeedNil,
              \<lparr>written = gctEncode (gct (newEvaluationKey exParams 1 0 0 True)), room = 680\<rparr>)"
proof -
  let ?fresh = "newEvaluationKey exParams 1 0 0 False"
  let ?nil = "newEvaluationKey exParams 1 0 0 True"
  have ex: "Expand exParams exSmp exEvkCompressed None = Ok (exEvkExpanded, exBufOk)"
    by (simp add: Expand_def ex_defs exEvkExpanded_def exSmp_def Let_def numeral_2_eq_2)
  have seed: "Seed exEvkCompressed = Some exSeed" and len: "length exSeed = 32"
    by (simp_all add: exEvkCompressed_def exSeed_def)
  have sz: "gctBinarySize (gct exEvkExpanded) = 584"
    by (simp add: ex_defs exEvkExpanded_def gctBinarySize_def sizeVec_def sizePolyQP_def
        sizePoly_def numeral_2_eq_2)
  have enc: "encodable (gct exEvkExpanded)"
    by (simp add: ex_defs exEvkExpanded_def encodable_def polyQPOK_def polyOK_def okLen_def
        list_all_iff)
  have sz0: "gctBinarySize (gct ?nil) = 320"
    by (simp add: ex_defs gctBinarySize_def sizeVec_def sizePolyQP_def sizePoly_def numeral_2_eq_2)
  have nil: "IsCompressed ?nil = Some True \<and> Seed ?nil = None"
    by (simp add: ex_defs numeral_2_eq_2)
  have l: "length (gctEncode (gct exEvkExpanded)) = 584"
    using length_gctEncode [of "gct exEvkExpanded"] sz by simp
  have l0: "length (gctEncode (gct ?nil)) = 320"
    using length_gctEncode [of "gct ?nil"] sz0 by simp
  note T = WriteTo_differs_from_BinarySize [where params = exParams and smp = exSmp
      and evk = exEvkCompressed and buffer = None and evk' = exEvkExpanded and b' = exBufOk,
      THEN conjunct1, THEN mp, OF ex]
  from T seed have s: "Seed exEvkExpanded = Some exSeed"
    and c: "IsCompressed exEvkExpanded = Some False"
    by simp_all
  have bs: "BinarySize exEvkExpanded = 616"
    using s sz len by (simp add: BinarySize_def)
  have h: "IsCompressed exEvkExpanded = Some False \<and> Seed exEvkExpanded = Some exSeed
      \<and> length (gctEncode (gct exEvkExpanded)) \<le> room exWriter"
    using c s l by (simp add: exWriter_def)
  note W = WriteTo_differs_from_BinarySize [where evk = exEvkExpanded and seed = exSeed
      and w = exWriter and fresh = ?fresh, THEN conjunct2, THEN conjunct1, THEN mp, OF h]
  have w: "WriteTo exEvkExpanded exWriter
      = Some (584, None, \<lparr>written = gctEncode (gct exEvkExpanded), room = 416\<rparr>)"
    using W [THEN conjunct1] bs len l by (simp add: exWriter_def)
  have fr: "?fresh\<lparr>gct := gct exEvkExpanded\<rparr> = exEvkExpanded\<lparr>Seed := None\<rparr>"
    by (cases exEvkExpanded) (simp add: newEvaluationKey_def)
  have r: "ReadFrom ?fresh (gctEncode (gct exEvkExpanded))
      = Some (584, None, exEvkExpanded\<lparr>Seed := None\<rparr>, [])"
    using W [THEN conjunct2, THEN mp, OF enc] bs len fr by simp
  have bs0: "BinarySize ?nil = 320"
    using nil sz0 by (simp add: BinarySize_def)
  have h0: "IsCompressed ?nil = Some True \<and> Seed ?nil = None
      \<and> length (gctEncode (gct ?nil)) \<le> room exWriter"
    using nil l0 by (simp add: exWriter_def)
  note N = WriteTo_differs_from_BinarySize [where evk = ?nil and w = exWriter,
      THEN conjunct2, THEN conjunct2, THEN mp, OF h0]
  have w0: "WriteTo ?nil exWriter
      = Some (640, Some ErrWriteSeedNil, \<lparr>written = gctEncode (gct ?nil), room = 680\<rparr>)"
    using N bs0 l0 by (simp add: exWriter_def)
  show ?thesis
    by (intro conjI) (rule ex s c bs w r bs0 w0)+
qed

end
